theory Spec2Isabelle
  imports Complex_Main
begin

section \<open>Numbers\<close>

text \<open>
  The JavaScript sources compute on IEEE doubles. The embedding computes on the exact
  reals: the rounding error of single operations is not modelled, the special values are.
  Wherever the code can divide by zero the quotient is a \<open>jsnum\<close> (defined with the
  forecast models), which keeps \<open>NaN\<close> and the two infinities apart from the finite
  numbers. \<open>Math.max(lo, Math.min(hi, x))\<close> on finite numbers is \<open>max lo (min hi x)\<close>.
\<close>

text \<open>
  \<open>parseFloat(x.toFixed(f))\<close> for a finite \<open>x\<close>. \<open>toFixed\<close> strips the sign, prints
  numbers from \<open>10^21\<close> on in exponent form (so that parsing gives \<open>x\<close> back), and
  otherwise picks the integer \<open>n\<close> with \<open>n / 10^f\<close> nearest to \<open>x\<close>, the larger one
  at a tie.
\<close>

definition toFixed :: "nat \<Rightarrow> real \<Rightarrow> real" where
  "toFixed f x =
     (if 10 ^ 21 \<le> \<bar>x\<bar> then x
      else if x < 0 then - (of_int \<lfloor>(- x) * 10 ^ f + 1 / 2\<rfloor> / 10 ^ f)
      else of_int \<lfloor>x * 10 ^ f + 1 / 2\<rfloor> / 10 ^ f)"

section \<open>Scenario simulation: the server side\<close>

text \<open>The row \<open>get_twin\<close> returns: the customer joined with the risk twin.\<close>

record risk_twin =
  customer_id :: int
  name :: string
  state :: string
  base_risk_score :: real
  next12m_claim_prob :: real
  next12m_expected_loss :: real

text \<open>The text of \<open>change.reason\<close>; the amount is the one the message prints.\<close>

datatype no_change_reason = AlreadyIn string real | NoChangesSpecified

text \<open>
  The \<open>change_json\<close> object. A field that is absent (\<open>undefined\<close>) is \<open>None\<close>;
  \<open>no_change\<close> is only ever set to \<open>true\<close>, so absent and \<open>False\<close> coincide.
\<close>

record change_json =
  no_change :: bool
  reason :: "no_change_reason option"
  move_state :: "string option"
  increase_deductible :: "real option"
  decrease_deductible :: "real option"
  restore_deductible :: "real option"
  before_deductible :: "real option"
  final_deductible :: "real option"

text \<open>The empty object \<open>{}\<close>.\<close>

definition empty_change :: change_json where
  "empty_change =
     \<lparr>no_change = False, reason = None, move_state = None, increase_deductible = None,
      decrease_deductible = None, restore_deductible = None, before_deductible = None,
      final_deductible = None\<rparr>"

text \<open>JavaScript truthiness of an optional string and of an optional number.\<close>

definition truthy_str :: "string option \<Rightarrow> bool" where
  "truthy_str v = (case v of None \<Rightarrow> False | Some s \<Rightarrow> s \<noteq> [])"

definition truthy_num :: "real option \<Rightarrow> bool" where
  "truthy_num v = (case v of None \<Rightarrow> False | Some x \<Rightarrow> x \<noteq> 0)"

definition stateRiskFactors :: "string \<Rightarrow> real option" where
  "stateRiskFactors = map_of
     [(''FL'', 1.15), (''CA'', 1.12), (''TX'', 1.08), (''NY'', 1.10), (''IL'', 1.05),
      (''PA'', 1.02), (''OH'', 0.98), (''GA'', 1.06), (''NC'', 1.04), (''MI'', 1.01),
      (''NJ'', 1.09), (''VA'', 1.03), (''WA'', 1.00), (''AZ'', 1.07), (''MA'', 1.11),
      (''TN'', 0.99), (''IN'', 0.97), (''MO'', 0.96), (''MD'', 1.08), (''WI'', 0.95)]"

text \<open>\<open>stateRiskFactors[k] || 1.0\<close>: every factor of the table is truthy.\<close>

definition factor_or_one :: "string \<Rightarrow> real" where
  "factor_or_one k = (case stateRiskFactors k of None \<Rightarrow> 1 | Some f \<Rightarrow> f)"

text \<open>
  \<open>stateAdjustment\<close>: the ratio of the two factors when \<open>move_state\<close> is truthy,
  and no multiplication (factor one) otherwise.
\<close>

definition stateAdjustment :: "risk_twin \<Rightarrow> change_json \<Rightarrow> real" where
  "stateAdjustment customer changeJson =
     (if truthy_str (move_state changeJson)
      then factor_or_one (the (move_state changeJson)) / factor_or_one (state customer)
      else 1)"

text \<open>
  \<open>deductibleChange = increase_deductible || -decrease_deductible\<close>, evaluated only
  when one of the two is truthy.
\<close>

definition deductibleChange :: "change_json \<Rightarrow> real" where
  "deductibleChange changeJson =
     (if truthy_num (increase_deductible changeJson) then the (increase_deductible changeJson)
      else - the (decrease_deductible changeJson))"

definition deductibleImpactFactor :: "change_json \<Rightarrow> real" where
  "deductibleImpactFactor changeJson =
     (if truthy_num (increase_deductible changeJson) \<or> truthy_num (decrease_deductible changeJson)
      then 1 - deductibleChange changeJson * 0.0001
      else 1)"

text \<open>
  \<open>applyScenarioImpact\<close> for a customer that exists: the three risk numbers are
  multiplied by the state adjustment, then by the deductible impact factor, then bounded;
  the customer's state becomes \<open>move_state\<close> when that is truthy.
\<close>

definition applyScenarioImpact :: "risk_twin \<Rightarrow> change_json \<Rightarrow> risk_twin" where
  "applyScenarioImpact customer changeJson =
     (let newRiskScore = base_risk_score customer;
          newClaimProb = next12m_claim_prob customer;
          newExpectedLoss = next12m_expected_loss customer;
          moved = truthy_str (move_state changeJson);
          stateAdj = stateAdjustment customer changeJson;
          newRiskScore = newRiskScore * stateAdj;
          newClaimProb = newClaimProb * stateAdj;
          newExpectedLoss = newExpectedLoss * stateAdj;
          dedFactor = deductibleImpactFactor changeJson;
          newRiskScore = newRiskScore * dedFactor;
          newClaimProb = newClaimProb * dedFactor;
          newExpectedLoss = newExpectedLoss * dedFactor
      in customer
           \<lparr>state := (if moved then the (move_state changeJson) else state customer),
            base_risk_score := max 0 (min 100 newRiskScore),
            next12m_claim_prob := max 0 (min 1 newClaimProb),
            next12m_expected_loss := max 0 newExpectedLoss\<rparr>)"

text \<open>
  What the handler of \<open>POST /api/scenario\<close> does to the customer's row: nothing when
  \<open>change_json.no_change\<close> is set, \<open>applyScenarioImpact\<close> otherwise.
\<close>

definition scenario_effect :: "risk_twin \<Rightarrow> change_json \<Rightarrow> risk_twin" where
  "scenario_effect customer changeJson =
     (if no_change changeJson then customer else applyScenarioImpact customer changeJson)"

text \<open>The ranges of the three risk numbers.\<close>

definition in_range :: "risk_twin \<Rightarrow> bool" where
  "in_range t \<longleftrightarrow>
     0 \<le> base_risk_score t \<and> base_risk_score t \<le> 100 \<and>
     0 \<le> next12m_claim_prob t \<and> next12m_claim_prob t \<le> 1 \<and>
     0 \<le> next12m_expected_loss t"

section \<open>Scenario simulation: the deductible memory of the dashboard\<close>

text \<open>
  What the page holds as \<open>currentTwin\<close> after a load: the customer's row, or the error
  object of a 400, 404 or 500 answer, which has no name and no state.
\<close>

datatype page_twin = Twin risk_twin | ErrorObject

definition twin_name :: "page_twin \<Rightarrow> string option" where
  "twin_name twin = (case twin of Twin t \<Rightarrow> Some (name t) | ErrorObject \<Rightarrow> None)"

definition twin_state :: "page_twin \<Rightarrow> string option" where
  "twin_state twin = (case twin of Twin t \<Rightarrow> Some (state t) | ErrorObject \<Rightarrow> None)"

text \<open>
  \<open>stateDeductibleHistory\<close>: for the customer on screen, the last deductible per state.
  An undefined state indexes the object under the key \<open>undefined\<close>.
\<close>

type_synonym ledger = "string \<Rightarrow> real option"

definition property_key :: "string option \<Rightarrow> string" where
  "property_key k = (case k of None \<Rightarrow> ''undefined'' | Some s \<Rightarrow> s)"

text \<open>\<open>stateDeductibleHistory[k] || 0\<close>.\<close>

definition deductible_or_zero :: "ledger \<Rightarrow> string \<Rightarrow> real" where
  "deductible_or_zero h k = (case h k of None \<Rightarrow> 0 | Some v \<Rightarrow> v)"

text \<open>
  \<open>initializeDeductibleHistory\<close> replaces the history: by the built-in history for the
  customer it knows by name, by the baseline of 1500 in the current state for any other.
\<close>

definition initializeDeductibleHistory :: "page_twin \<Rightarrow> ledger" where
  "initializeDeductibleHistory twin =
     (if twin_name twin = Some ''Carlos Ramirez''
      then map_of [(''TX'', 1500), (''LA'', 2500), (''WA'', 1750)]
      else [property_key (twin_state twin) \<mapsto> 1500])"

text \<open>
  The block that \<open>applyScenario\<close> repeats in its three branches with a positive amount:
  it records the direction and the amount in the change and computes the new deductible,
  which never goes below zero. Any \<open>action\<close> other than \<open>increase\<close> decreases.
\<close>

definition adjust_deductible ::
  "string \<Rightarrow> real \<Rightarrow> real \<Rightarrow> change_json \<Rightarrow> change_json \<times> real" where
  "adjust_deductible action d currentDeductible change =
     (if action = ''increase''
      then (let newDeductible = currentDeductible + d
            in (change\<lparr>increase_deductible := Some d,
                       before_deductible := Some currentDeductible,
                       final_deductible := Some newDeductible\<rparr>, newDeductible))
      else (let newDeductible = max 0 (currentDeductible - d)
            in (change\<lparr>decrease_deductible := Some d,
                       before_deductible := Some currentDeductible,
                       final_deductible := Some newDeductible\<rparr>, newDeductible)))"

text \<open>
  The first part of \<open>applyScenario\<close>, down to the scenario name: from the history, the
  state of the twin on screen, the target state \<open>s\<close> typed by the operator (trimmed,
  empty for none), the amount \<open>d\<close> (zero for none) and the action, it builds \<open>change\<close>,
  writes the history and sets \<open>isNoChange\<close>. The history it returns is the history at
  the moment the request is sent, not the one the call leaves: see \<open>applyScenario\<close> below.
\<close>

definition build_change ::
  "ledger \<Rightarrow> string option \<Rightarrow> string \<Rightarrow> real \<Rightarrow> string \<Rightarrow> change_json \<times> ledger \<times> bool" where
  "build_change h currentState s d action =
     (if s \<noteq> [] then
        (if Some s = currentState then
           (if truthy_num (h s) \<and> d = 0 then
              (empty_change\<lparr>no_change := True, reason := Some (AlreadyIn s (the (h s)))\<rparr>,
               h, True)
            else if d > 0 then
              (let (change, newDeductible) =
                     adjust_deductible action d (deductible_or_zero h s) empty_change
               in (change, h(s \<mapsto> newDeductible), False))
            else (empty_change, h, False))
         else
           (let change = empty_change\<lparr>move_state := Some s\<rparr> in
            if truthy_num (h s) \<and> d = 0 then
              (change\<lparr>restore_deductible := h s\<rparr>, h, False)
            else if d > 0 then
              (let (change, newDeductible) =
                     adjust_deductible action d
                       (deductible_or_zero h (property_key currentState)) change
               in (change, h(s \<mapsto> newDeductible), False))
            else (change, h(s \<mapsto> deductible_or_zero h (property_key currentState)), False)))
      else if d > 0 then
        (let currentState =
               (case currentState of
                  None \<Rightarrow> ''unknown''
                | Some k \<Rightarrow> if k = [] then ''unknown'' else k);
             (change, newDeductible) =
               adjust_deductible action d (deductible_or_zero h currentState) empty_change
         in (change, h(currentState \<mapsto> newDeductible), False))
      else
        (empty_change\<lparr>no_change := True, reason := Some NoChangesSpecified\<rparr>, h, True))"

text \<open>
  The scenario name. \<open>fmt\<close> stands for the conversion of a number to text inside a
  template literal.
\<close>

definition reason_text :: "(real \<Rightarrow> string) \<Rightarrow> no_change_reason option \<Rightarrow> string" where
  "reason_text fmt r =
     (case r of
        None \<Rightarrow> ''undefined''
      | Some (AlreadyIn s v) \<Rightarrow> ''Already in '' @ s @ '' with $'' @ fmt v @ '' deductible''
      | Some NoChangesSpecified \<Rightarrow> ''No changes specified'')"

definition scenarioName ::
  "(real \<Rightarrow> string) \<Rightarrow> change_json \<Rightarrow> string \<Rightarrow> bool \<Rightarrow> string" where
  "scenarioName fmt change s isNoChange =
     ''What-if: '' @
     (if isNoChange then ''no change ('' @ reason_text fmt (reason change) @ '')''
      else if s \<noteq> [] then
        ''move to '' @ s @
        (if truthy_num (restore_deductible change)
           then '' (restore $'' @ fmt (the (restore_deductible change)) @ '' deductible)''
         else if truthy_num (increase_deductible change)
           then '' + $'' @ fmt (the (increase_deductible change)) @ '' deductible''
         else if truthy_num (decrease_deductible change)
           then '' - $'' @ fmt (the (decrease_deductible change)) @ '' deductible''
         else [])
      else if truthy_num (increase_deductible change)
        then ''increase deductible by $'' @ fmt (the (increase_deductible change))
      else if truthy_num (decrease_deductible change)
        then ''decrease deductible by $'' @ fmt (the (decrease_deductible change))
      else ''no changes'')"

text \<open>Two rows that agree in every field, the numbers within \<open>10^-9\<close>.\<close>

definition same_profile :: "risk_twin \<Rightarrow> risk_twin \<Rightarrow> bool" where
  "same_profile a b \<longleftrightarrow>
     customer_id a = customer_id b \<and> name a = name b \<and> state a = state b \<and>
     \<bar>base_risk_score a - base_risk_score b\<bar> \<le> 1 / 10 ^ 9 \<and>
     \<bar>next12m_claim_prob a - next12m_claim_prob b\<bar> \<le> 1 / 10 ^ 9 \<and>
     \<bar>next12m_expected_loss a - next12m_expected_loss b\<bar> \<le> 1 / 10 ^ 9"

section \<open>Scenario simulation: validation and the request handler\<close>

text \<open>\<open>/^[A-Z]{2}$/.test(stateCode)\<close>.\<close>

definition upper_case_letter :: "char \<Rightarrow> bool" where
  "upper_case_letter c \<longleftrightarrow> 65 \<le> (of_char c :: nat) \<and> (of_char c :: nat) \<le> 90"

definition validateStateCode :: "string \<Rightarrow> bool" where
  "validateStateCode stateCode \<longleftrightarrow> length stateCode = 2 \<and> list_all upper_case_letter stateCode"

text \<open>The body of a scenario request; an absent field is \<open>None\<close>.\<close>

record scenario_request =
  req_customer_id :: "int option"
  req_name :: "string option"
  req_change_json :: "change_json option"

text \<open>The \<open>code\<close> of the 400 responses of \<open>validateScenarioData\<close>.\<close>

datatype validation_error =
  MISSING_CUSTOMER_ID | INVALID_CUSTOMER_ID | INVALID_SCENARIO_NAME | SCENARIO_NAME_TOO_LONG |
  INVALID_CHANGE_JSON | INVALID_STATE_CODE | INVALID_DEDUCTIBLE

text \<open>
  \<open>validateScenarioData\<close>: the first failing check answers the request, otherwise
  \<open>req.validatedScenario\<close> is handed on. \<open>sanitize\<close> stands for the library call
  \<open>validator.escape(name.trim())\<close>. Of the fields of \<open>change_json\<close> only \<open>move_state\<close>
  and \<open>increase_deductible\<close> are looked at.
\<close>

definition validateScenarioData ::
  "(string \<Rightarrow> string) \<Rightarrow> scenario_request \<Rightarrow> validation_error + (int \<times> string \<times> change_json)" where
  "validateScenarioData sanitize body =
     (case req_customer_id body of
        None \<Rightarrow> Inl MISSING_CUSTOMER_ID
      | Some cid \<Rightarrow>
          if cid = 0 then Inl MISSING_CUSTOMER_ID
          else if cid \<le> 0 then Inl INVALID_CUSTOMER_ID
          else (case req_name body of
             None \<Rightarrow> Inl INVALID_SCENARIO_NAME
           | Some nm \<Rightarrow>
               if nm = [] then Inl INVALID_SCENARIO_NAME
               else if length nm > 255 then Inl SCENARIO_NAME_TOO_LONG
               else (case req_change_json body of
                  None \<Rightarrow> Inl INVALID_CHANGE_JSON
                | Some cj \<Rightarrow>
                    if truthy_str (move_state cj) \<and> \<not> validateStateCode (the (move_state cj))
                    then Inl INVALID_STATE_CODE
                    else if (case increase_deductible cj of
                               None \<Rightarrow> False
                             | Some deductible \<Rightarrow> deductible < 0 \<or> deductible > 10000)
                    then Inl INVALID_DEDUCTIBLE
                    else Inr (cid, sanitize nm, cj))))"

text \<open>
  The tables the handler writes: the customers' rows, the scenarios, and the timeline (of
  a timeline row only the customer is kept, its texts are formatting).
\<close>

record server_db =
  twins :: "int \<Rightarrow> risk_twin option"
  scenarios :: "(int \<times> string \<times> change_json) list"
  timeline_events :: "int list"

datatype response = Rejected validation_error | Failed | Created

text \<open>
  \<open>POST /api/scenario\<close>: validation first; then the scenario row, the impact on the
  customer's row unless \<open>no_change\<close> is set, and the timeline row. \<open>applyScenarioImpact\<close>
  throws for a customer without a row, which the handler answers with status 500, the
  scenario row being written already.
\<close>

definition post_scenario ::
  "(string \<Rightarrow> string) \<Rightarrow> server_db \<Rightarrow> scenario_request \<Rightarrow> server_db \<times> response" where
  "post_scenario sanitize db body =
     (case validateScenarioData sanitize body of
        Inl e \<Rightarrow> (db, Rejected e)
      | Inr (cid, nm, cj) \<Rightarrow>
          (let db1 = db\<lparr>scenarios := scenarios db @ [(cid, nm, cj)]\<rparr> in
           if no_change cj
           then (db1\<lparr>timeline_events := timeline_events db1 @ [cid]\<rparr>, Created)
           else (case twins db1 cid of
              None \<Rightarrow> (db1, Failed)
            | Some customer \<Rightarrow>
                (let db2 = db1\<lparr>twins := (twins db1)(cid \<mapsto> applyScenarioImpact customer cj)\<rparr>
                 in (db2\<lparr>timeline_events := timeline_events db2 @ [cid]\<rparr>, Created)))))"

section \<open>Scenario simulation: the page and the server together\<close>

text \<open>
  The variables of the page: the customer selected, the twin on screen (nothing before the
  first load) and the deductible history.
\<close>

record page =
  currentId :: "int option"
  currentTwin :: "page_twin option"
  stateDeductibleHistory :: ledger

text \<open>
  \<open>GET /api/twin/:id\<close>: the customer's row, or an error object for an id that is not
  positive or has no row.
\<close>

definition get_twin :: "server_db \<Rightarrow> int \<Rightarrow> page_twin" where
  "get_twin db customerId =
     (if customerId \<le> 0 then ErrorObject
      else (case twins db customerId of None \<Rightarrow> ErrorObject | Some twin \<Rightarrow> Twin twin))"

text \<open>
  \<open>loadTwin\<close>, as far as it sets the variables: it stores what the server answers as the
  twin on screen and initialises the history for it. The server is taken to answer; a
  request that fails on the network leaves the variables as they are.
\<close>

definition loadTwin :: "server_db \<Rightarrow> int \<Rightarrow> page \<Rightarrow> page" where
  "loadTwin db customerId p =
     (let newTwin = get_twin db customerId
      in p\<lparr>currentId := Some customerId,
           currentTwin := Some newTwin,
           stateDeductibleHistory := initializeDeductibleHistory newTwin\<rparr>)"

text \<open>
  \<open>applyScenario\<close> as a whole: nothing without a selected customer and a twin on screen;
  otherwise it builds the change (writing the history), posts the scenario, and loads the
  twin again, which initialises the history anew. The result is the page and the tables
  afterwards and the server's answer to the post.
\<close>

definition applyScenario ::
  "(real \<Rightarrow> string) \<Rightarrow> (string \<Rightarrow> string) \<Rightarrow> page \<Rightarrow> server_db \<Rightarrow> string \<Rightarrow> real \<Rightarrow> string
     \<Rightarrow> page \<times> server_db \<times> response option" where
  "applyScenario fmt sanitize p db s d action =
     (case (currentId p, currentTwin p) of
        (Some customerId, Some twin) \<Rightarrow>
          if customerId = 0 then (p, db, None)
          else
            (let (change, h, isNoChange) =
                   build_change (stateDeductibleHistory p) (twin_state twin) s d action;
                 scenarioName = scenarioName fmt change s isNoChange;
                 body = \<lparr>req_customer_id = Some customerId, req_name = Some scenarioName,
                         req_change_json = Some change\<rparr>;
                 (db', out) = post_scenario sanitize db body
             in (loadTwin db' customerId (p\<lparr>stateDeductibleHistory := h\<rparr>), db', Some out))
      | _ \<Rightarrow> (p, db, None))"

text \<open>
  The page shows customer \<open>cid\<close> with row \<open>t\<close> as \<open>loadTwin\<close> leaves it: the twin on
  screen is the stored row and the history is the one initialised for it.
\<close>

definition loaded :: "server_db \<Rightarrow> int \<Rightarrow> risk_twin \<Rightarrow> page \<Rightarrow> bool" where
  "loaded db cid t p \<longleftrightarrow>
     0 < cid \<and> twins db cid = Some t \<and> currentId p = Some cid \<and>
     currentTwin p = Some (Twin t) \<and>
     stateDeductibleHistory p = initializeDeductibleHistory (Twin t)"

section \<open>Risk recalculation\<close>

text \<open>The external factors as \<open>getExternalFactors\<close> builds them.\<close>

record weather_factors =
  severe_weather_probability :: real
  hurricane_season :: bool
  winter_storm_risk :: bool

record economic_factors =
  unemployment_rate :: real
  inflation_rate :: real
  gas_prices :: real

record traffic_factors =
  accident_rate_increase :: real
  construction_zones :: nat
  road_conditions :: string

record market_factors =
  claims_frequency_trend :: real
  competitor_pricing_pressure :: real
  regulatory_changes :: bool

record external_factors =
  weather :: weather_factors
  economic :: economic_factors
  traffic :: traffic_factors
  market :: market_factors

text \<open>The \<open>adjustments\<close> object, one entry per category.\<close>

record adjustments =
  adj_weather :: real
  adj_economic :: real
  adj_traffic :: real
  adj_market :: real
  adj_temporal :: real

text \<open>The part of the result of \<open>calculateRiskScore\<close> that is computed from its inputs.\<close>

record risk_calculation =
  original_score :: real
  new_score :: real
  adjustment :: real
  factors :: adjustments
  confidence_level :: real

text \<open>\<open>getTemporalAdjustment\<close>, with the hour and the day of the week read from the clock.\<close>

definition getTemporalAdjustment :: "nat \<Rightarrow> nat \<Rightarrow> real" where
  "getTemporalAdjustment hour dayOfWeek =
     (let adjustment = 0;
          adjustment = (if (hour \<ge> 7 \<and> hour \<le> 9) \<or> (hour \<ge> 17 \<and> hour \<le> 19)
                        then adjustment + 1.5 else adjustment);
          adjustment = (if dayOfWeek = 0 \<or> dayOfWeek = 6 then adjustment + 1 else adjustment);
          adjustment = (if hour \<ge> 22 \<or> hour \<le> 5 then adjustment + 2 else adjustment)
      in adjustment)"

definition hurricane_states :: "string list" where
  "hurricane_states = [''FL'', ''TX'', ''LA'', ''NC'', ''SC'']"

text \<open>
  The adjustments of \<open>calculateRiskScore\<close>; \<open>temporal\<close> is the value that
  \<open>getTemporalAdjustment()\<close> returned.
\<close>

definition risk_adjustments :: "string \<Rightarrow> external_factors \<Rightarrow> real \<Rightarrow> adjustments" where
  "risk_adjustments customerState externalFactors temporal =
     (let w = 0;
          w = (if severe_weather_probability (weather externalFactors) > 0.2
               then w + severe_weather_probability (weather externalFactors) * 10 else w);
          w = (if hurricane_season (weather externalFactors) \<and> customerState \<in> set hurricane_states
               then w + 3 else w);
          e = 0;
          e = (if unemployment_rate (economic externalFactors) > 0.06
               then e + (unemployment_rate (economic externalFactors) - 0.06) * 50 else e);
          t = 0 + accident_rate_increase (traffic externalFactors) * 20;
          m = 0 + claims_frequency_trend (market externalFactors) * 15;
          tm = 0 + temporal
      in \<lparr>adj_weather = w, adj_economic = e, adj_traffic = t, adj_market = m, adj_temporal = tm\<rparr>)"

text \<open>\<open>Object.values(adjustments).reduce((sum, adj) => sum + adj, 0)\<close>.\<close>

definition totalAdjustment :: "adjustments \<Rightarrow> real" where
  "totalAdjustment a =
     foldl (+) 0 [adj_weather a, adj_economic a, adj_traffic a, adj_market a, adj_temporal a]"

definition smoothedAdjustment :: "adjustments \<Rightarrow> real" where
  "smoothedAdjustment a = totalAdjustment a * 0.7"

text \<open>
  \<open>calculateRiskScore\<close>: \<open>rnd\<close> is what \<open>Math.random()\<close> returned, \<open>temporal\<close>
  what \<open>getTemporalAdjustment()\<close> returned.
\<close>

definition calculateRiskScore ::
  "risk_twin \<Rightarrow> external_factors \<Rightarrow> real \<Rightarrow> real \<Rightarrow> risk_calculation" where
  "calculateRiskScore customerData externalFactors temporal rnd =
     (let baseScore = base_risk_score customerData;
          adjs = risk_adjustments (state customerData) externalFactors temporal;
          smoothed = smoothedAdjustment adjs;
          newScore = max 0 (min 100 (baseScore + smoothed))
      in \<lparr>original_score = baseScore,
          new_score = toFixed 1 newScore,
          adjustment = toFixed 1 smoothed,
          factors = adjs,
          confidence_level = 0.85 + rnd * 0.1\<rparr>)"

section \<open>Numbers with the special values\<close>

text \<open>
  A JavaScript number: finite, one of the infinities, or \<open>NaN\<close>. The reals have a
  single zero, which divides like \<open>+0\<close>.
\<close>

datatype jsnum = Fin real | PosInf | NegInf | NaN

text \<open>The infinity with the sign of \<open>x\<close>, \<open>NaN\<close> for zero.\<close>

definition signed_inf :: "real \<Rightarrow> jsnum" where
  "signed_inf x = (if x > 0 then PosInf else if x < 0 then NegInf else NaN)"

fun js_neg :: "jsnum \<Rightarrow> jsnum" where
  "js_neg (Fin x) = Fin (- x)"
| "js_neg PosInf = NegInf"
| "js_neg NegInf = PosInf"
| "js_neg NaN = NaN"

fun js_add :: "jsnum \<Rightarrow> jsnum \<Rightarrow> jsnum" where
  "js_add NaN _ = NaN"
| "js_add _ NaN = NaN"
| "js_add (Fin a) (Fin b) = Fin (a + b)"
| "js_add PosInf NegInf = NaN"
| "js_add NegInf PosInf = NaN"
| "js_add PosInf _ = PosInf"
| "js_add _ PosInf = PosInf"
| "js_add NegInf _ = NegInf"
| "js_add _ NegInf = NegInf"

definition js_sub :: "jsnum \<Rightarrow> jsnum \<Rightarrow> jsnum" where
  "js_sub a b = js_add a (js_neg b)"

fun js_mul :: "jsnum \<Rightarrow> jsnum \<Rightarrow> jsnum" where
  "js_mul NaN _ = NaN"
| "js_mul _ NaN = NaN"
| "js_mul (Fin a) (Fin b) = Fin (a * b)"
| "js_mul (Fin a) PosInf = signed_inf a"
| "js_mul (Fin a) NegInf = signed_inf (- a)"
| "js_mul PosInf (Fin b) = signed_inf b"
| "js_mul NegInf (Fin b) = signed_inf (- b)"
| "js_mul PosInf PosInf = PosInf"
| "js_mul NegInf NegInf = PosInf"
| "js_mul PosInf NegInf = NegInf"
| "js_mul NegInf PosInf = NegInf"

fun js_div :: "jsnum \<Rightarrow> jsnum \<Rightarrow> jsnum" where
  "js_div NaN _ = NaN"
| "js_div _ NaN = NaN"
| "js_div (Fin a) (Fin b) = (if b = 0 then signed_inf a else Fin (a / b))"
| "js_div (Fin a) _ = Fin 0"
| "js_div PosInf (Fin b) = (if b < 0 then NegInf else PosInf)"
| "js_div NegInf (Fin b) = (if b < 0 then PosInf else NegInf)"
| "js_div _ _ = NaN"

text \<open>\<open>a > b\<close> and \<open>a < b\<close>: false as soon as one side is \<open>NaN\<close>.\<close>

fun js_gt :: "jsnum \<Rightarrow> jsnum \<Rightarrow> bool" where
  "js_gt NaN _ = False"
| "js_gt _ NaN = False"
| "js_gt (Fin a) (Fin b) = (a > b)"
| "js_gt PosInf PosInf = False"
| "js_gt PosInf _ = True"
| "js_gt _ PosInf = False"
| "js_gt NegInf _ = False"
| "js_gt _ NegInf = True"

definition js_lt :: "jsnum \<Rightarrow> jsnum \<Rightarrow> bool" where
  "js_lt a b = js_gt b a"

text \<open>\<open>Math.max\<close> and \<open>Math.min\<close> of two numbers: \<open>NaN\<close> if one of them is.\<close>

fun js_max :: "jsnum \<Rightarrow> jsnum \<Rightarrow> jsnum" where
  "js_max NaN _ = NaN"
| "js_max _ NaN = NaN"
| "js_max a b = (if js_gt a b then a else b)"

fun js_min :: "jsnum \<Rightarrow> jsnum \<Rightarrow> jsnum" where
  "js_min NaN _ = NaN"
| "js_min _ NaN = NaN"
| "js_min a b = (if js_gt a b then b else a)"

text \<open>\<open>parseFloat(x.toFixed(f))\<close>: the special values print and parse as themselves.\<close>

fun js_toFixed :: "nat \<Rightarrow> jsnum \<Rightarrow> jsnum" where
  "js_toFixed f (Fin x) = Fin (toFixed f x)"
| "js_toFixed f x = x"

section \<open>Forecast models\<close>

text \<open>
  A row of the historical data, with the two fields the models read. \<open>days_from_start\<close>
  is a whole number of days (\<open>Math.floor\<close>), so two scenarios of the same day share it.
\<close>

record history_point =
  days_from_start :: int
  risk_score_at_time :: real

text \<open>A prediction point; \<open>period\<close> is the number \<open>i + 1\<close> of the text \<open>Month i+1\<close>.\<close>

record prediction =
  period :: nat
  predicted_risk :: jsnum
  confidence :: real

definition parseHorizon :: "string \<Rightarrow> nat" where
  "parseHorizon horizon =
     (case map_of [(''3m'', 3), (''6m'', 6), (''12m'', 12), (''24m'', 24)] horizon of
        None \<Rightarrow> 12 | Some n \<Rightarrow> n)"

definition generateStaticForecast :: "real \<Rightarrow> nat \<Rightarrow> prediction list" where
  "generateStaticForecast currentRisk timeSteps =
     map (\<lambda>i. \<lparr>period = i + 1, predicted_risk = Fin currentRisk,
               confidence = max 0.3 (0.8 - real i * 0.05)\<rparr>) [0..<timeSteps]"

text \<open>\<open>calculateLinearRegression\<close>; both quotients are JavaScript divisions.\<close>

definition calculateLinearRegression :: "history_point list \<Rightarrow> jsnum \<times> jsnum" where
  "calculateLinearRegression data =
     (let n = real (length data);
          sumX = foldl (\<lambda>sum d. sum + real_of_int (days_from_start d)) 0 data;
          sumY = foldl (\<lambda>sum d. sum + risk_score_at_time d) 0 data;
          sumXY = foldl (\<lambda>sum d. sum + real_of_int (days_from_start d) * risk_score_at_time d) 0 data;
          sumXX = foldl (\<lambda>sum d. sum + real_of_int (days_from_start d) * real_of_int (days_from_start d)) 0 data;
          slope = js_div (Fin (n * sumXY - sumX * sumY)) (Fin (n * sumXX - sumX * sumX));
          intercept = js_div (js_sub (Fin sumY) (js_mul slope (Fin sumX))) (Fin n)
      in (slope, intercept))"

text \<open>
  \<open>linearRegressionForecast\<close>. \<open>Math.max(...)\<close> over the days is taken on the branch
  with at least two rows only.
\<close>

definition linearRegressionForecast :: "history_point list \<Rightarrow> real \<Rightarrow> nat \<Rightarrow> prediction list" where
  "linearRegressionForecast historicalData currentRisk timeSteps =
     (if length historicalData < 2 then generateStaticForecast currentRisk timeSteps
      else
        (let (slope, intercept) = calculateLinearRegression historicalData;
             lastTimestamp = Max (set (map days_from_start historicalData))
         in map (\<lambda>i.
              (let futureTime = real_of_int (lastTimestamp + (int i + 1) * 30);
                   predictedRisk =
                     js_max (Fin 0) (js_min (Fin 100) (js_add (js_mul slope (Fin futureTime)) intercept))
               in \<lparr>period = i + 1, predicted_risk = js_toFixed 1 predictedRisk,
                    confidence = max 0.3 (0.9 - real i * 0.1)\<rparr>)) [0..<timeSteps]))"

definition smoothedValue :: "history_point list \<Rightarrow> real \<Rightarrow> real" where
  "smoothedValue historicalData currentRisk =
     (let alpha = 0.3
      in foldl (\<lambda>smoothed point. alpha * risk_score_at_time point + (1 - alpha) * smoothed)
           currentRisk historicalData)"

definition exponentialSmoothingForecast ::
  "history_point list \<Rightarrow> real \<Rightarrow> nat \<Rightarrow> prediction list" where
  "exponentialSmoothingForecast historicalData currentRisk timeSteps =
     map (\<lambda>i. \<lparr>period = i + 1,
               predicted_risk = Fin (toFixed 1 (smoothedValue historicalData currentRisk)),
               confidence = max 0.4 (0.85 - real i * 0.08)\<rparr>) [0..<timeSteps]"

text \<open>
  The successive differences \<open>historicalData.slice(1).map((point, i) => point - historicalData[i])\<close>
  and their mean; the mean is taken of at least two differences.
\<close>

definition differences :: "history_point list \<Rightarrow> real list" where
  "differences historicalData =
     map (\<lambda>(point, previous). risk_score_at_time point - risk_score_at_time previous)
       (zip (tl historicalData) historicalData)"

definition avgDifference :: "history_point list \<Rightarrow> real" where
  "avgDifference historicalData =
     foldl (+) 0 (differences historicalData) / real (length (differences historicalData))"

definition arimaForecast :: "history_point list \<Rightarrow> real \<Rightarrow> nat \<Rightarrow> prediction list" where
  "arimaForecast historicalData currentRisk timeSteps =
     (if length historicalData < 3
      then exponentialSmoothingForecast historicalData currentRisk timeSteps
      else map (\<lambda>i.
             (let predictedRisk =
                    max 0 (min 100 (currentRisk + avgDifference historicalData * (real i + 1)))
              in \<lparr>period = i + 1, predicted_risk = Fin (toFixed 1 predictedRisk),
                   confidence = max 0.5 (0.9 - real i * 0.05)\<rparr>)) [0..<timeSteps])"

definition ensembleForecast :: "history_point list \<Rightarrow> real \<Rightarrow> nat \<Rightarrow> prediction list" where
  "ensembleForecast historicalData currentRisk timeSteps =
     (let linearPreds = linearRegressionForecast historicalData currentRisk timeSteps;
          expPreds = exponentialSmoothingForecast historicalData currentRisk timeSteps;
          arimaPreds = arimaForecast historicalData currentRisk timeSteps
      in map (\<lambda>i.
           (let weightedRisk =
                  js_add (js_add (js_mul (predicted_risk (linearPreds ! i)) (Fin 0.3))
                                 (js_mul (predicted_risk (expPreds ! i)) (Fin 0.3)))
                         (js_mul (predicted_risk (arimaPreds ! i)) (Fin 0.4));
                weightedConfidence =
                  confidence (linearPreds ! i) * 0.3 + confidence (expPreds ! i) * 0.3
                  + confidence (arimaPreds ! i) * 0.4
            in \<lparr>period = i + 1, predicted_risk = js_toFixed 1 weightedRisk,
                 confidence = toFixed 2 weightedConfidence\<rparr>)) [0..<timeSteps])"

text \<open>
  \<open>calculateTrendDirection\<close>. The percent change is a JavaScript quotient: with zero
  as the first value it is an infinity or \<open>NaN\<close>, and both comparisons are false on
  \<open>NaN\<close>.
\<close>

definition calculateTrendDirection :: "prediction list \<Rightarrow> string" where
  "calculateTrendDirection predictions =
     (if length predictions < 2 then ''stable''
      else
        (let firstRisk = predicted_risk (predictions ! 0);
             lastRisk = predicted_risk (predictions ! (length predictions - 1));
             change = js_mul (js_div (js_sub lastRisk firstRisk) firstRisk) (Fin 100)
         in if js_gt change (Fin 5) then ''increasing''
            else if js_lt change (Fin (- 5)) then ''decreasing''
            else ''stable''))"

section \<open>Example data\<close>

text \<open>A customer in Florida, and the customer whose history the dashboard knows by name.\<close>

definition florida_twin :: risk_twin where
  "florida_twin =
     \<lparr>customer_id = 1, name = ''Ann Lee'', state = ''FL'', base_risk_score = 78.5,
      next12m_claim_prob = 0.38, next12m_expected_loss = 4200\<rparr>"

definition carlos :: "string \<Rightarrow> risk_twin" where
  "carlos st =
     \<lparr>customer_id = 4, name = ''Carlos Ramirez'', state = st, base_risk_score = 62,
      next12m_claim_prob = 0.2, next12m_expected_loss = 3100\<rparr>"

definition example_db :: server_db where
  "example_db = \<lparr>twins = [1 \<mapsto> florida_twin], scenarios = [], timeline_events = []\<rparr>"

text \<open>The tables with the named customer in the given state, and a page before any load.\<close>

definition carlos_db :: "string \<Rightarrow> server_db" where
  "carlos_db st = \<lparr>twins = [4 \<mapsto> carlos st], scenarios = [], timeline_events = []\<rparr>"

definition blank_page :: page where
  "blank_page = \<lparr>currentId = None, currentTwin = None, stateDeductibleHistory = Map.empty\<rparr>"

text \<open>
  For the closed examples: a number conversion that knows the amounts the examples print,
  and a sanitizer that leaves a name as it is.
\<close>

definition example_fmt :: "real \<Rightarrow> string" where
  "example_fmt x =
     (if x = 500 then ''500'' else if x = 1500 then ''1500'' else if x = 1750 then ''1750''
      else if x = 2500 then ''2500'' else ''0'')"

definition example_sanitize :: "string \<Rightarrow> string" where
  "example_sanitize nm = nm"

text \<open>The pages that show the named customer and the customer in Florida after a load.\<close>

definition carlos_page :: "string \<Rightarrow> page" where
  "carlos_page st = loadTwin (carlos_db st) 4 blank_page"


text \<open>A request that changes the deductible only, by \<open>amount\<close> in the given direction.\<close>

definition deductible_request :: "bool \<Rightarrow> real \<Rightarrow> scenario_request" where
  "deductible_request increase amount =
     \<lparr>req_customer_id = Some 1, req_name = Some ''What-if'',
      req_change_json = Some (if increase
        then empty_change\<lparr>increase_deductible := Some amount\<rparr>
        else empty_change\<lparr>decrease_deductible := Some amount\<rparr>)\<rparr>"

text \<open>A row of the historical data.\<close>

definition point :: "int \<Rightarrow> real \<Rightarrow> history_point" where
  "point d r = \<lparr>days_from_start = d, risk_score_at_time = r\<rparr>"

text \<open>External factors under which only the traffic adjustment is not zero.\<close>

definition calm :: external_factors where
  "calm =
     \<lparr>weather = \<lparr>severe_weather_probability = 0.1, hurricane_season = False,
                 winter_storm_risk = False\<rparr>,
      economic = \<lparr>unemployment_rate = 0.041, inflation_rate = 0.041, gas_prices = 3.45\<rparr>,
      traffic = \<lparr>accident_rate_increase = 0.01, construction_zones = 0,
                 road_conditions = ''good''\<rparr>,
      market = \<lparr>claims_frequency_trend = 0, competitor_pricing_pressure = 0,
                regulatory_changes = False\<rparr>\<rparr>"

section \<open>Properties of forecasts, as predicates\<close>

text \<open>
  The confidences of a forecast never increase from one period to the next and lie
  between \<open>lo\<close> and \<open>hi\<close>.
\<close>

definition confidence_between :: "real \<Rightarrow> real \<Rightarrow> prediction list \<Rightarrow> bool" where
  "confidence_between lo hi ps \<longleftrightarrow>
     sorted_wrt (\<ge>) (map confidence ps) \<and>
     list_all (\<lambda>p. lo \<le> confidence p \<and> confidence p \<le> hi) ps"

text \<open>The same with every confidence in the interval \<open>(0, 1]\<close>.\<close>

definition confidence_ok :: "prediction list \<Rightarrow> bool" where
  "confidence_ok ps \<longleftrightarrow>
     sorted_wrt (\<ge>) (map confidence ps) \<and>
     list_all (\<lambda>p. 0 < confidence p \<and> confidence p \<le> 1) ps"

text \<open>
  The blended value \<open>b\<close> of a period lies between the least and the greatest of the values
  \<open>l\<close>, \<open>e\<close> and \<open>a\<close> of the three models; this needs all four to be finite numbers.
\<close>

definition within_variants :: "jsnum \<Rightarrow> jsnum \<Rightarrow> jsnum \<Rightarrow> jsnum \<Rightarrow> bool" where
  "within_variants l e a b =
     (case (l, e, a, b) of
        (Fin l', Fin e', Fin a', Fin b') \<Rightarrow>
          min l' (min e' a') \<le> b' \<and> b' \<le> max l' (max e' a')
      | _ \<Rightarrow> False)"

text \<open>All rows of the history share one day.\<close>

definition same_day :: "history_point list \<Rightarrow> bool" where
  "same_day data =
     (case data of
        [] \<Rightarrow> True
      | p # ps \<Rightarrow> list_all (\<lambda>q. days_from_start q = days_from_start p) ps)"

text \<open>The day of a row as a real number, and the numbers with at most one decimal.\<close>

definition day :: "history_point \<Rightarrow> real" where
  "day d = real_of_int (days_from_start d)"

definition tenth :: "real \<Rightarrow> bool" where
  "tenth x \<longleftrightarrow> real_of_int \<lfloor>x * 10\<rfloor> = x * 10"

text \<open>
  The trend that the sign of the last value decides when the first value is zero: the
  percent change is then \<open>+Infinity\<close>, \<open>-Infinity\<close> or \<open>NaN\<close>.
\<close>

definition trend_from_zero :: "jsnum \<Rightarrow> string" where
  "trend_from_zero lastRisk =
     (case lastRisk of
        Fin l \<Rightarrow> if l > 0 then ''increasing'' else if l < 0 then ''decreasing'' else ''stable''
      | PosInf \<Rightarrow> ''increasing''
      | NegInf \<Rightarrow> ''decreasing''
      | NaN \<Rightarrow> ''stable'')"

section \<open>Scenario simulation: properties\<close>

lemmas scenario_defs =
  build_change_def adjust_deductible_def empty_change_def
  truthy_num_def truthy_str_def deductible_or_zero_def property_key_def scenario_effect_def
  applyScenarioImpact_def stateAdjustment_def deductibleImpactFactor_def deductibleChange_def
  factor_or_one_def stateRiskFactors_def Let_def

lemmas page_defs =
  applyScenario_def loadTwin_def get_twin_def initializeDeductibleHistory_def twin_name_def
  twin_state_def scenarioName_def reason_text_def post_scenario_def validateScenarioData_def
  validateStateCode_def upper_case_letter_def blank_page_def

lemma applyScenarioImpact_in_range: "in_range (applyScenarioImpact customer changeJson)"
  by (simp add: applyScenarioImpact_def in_range_def Let_def)

lemma scenario_effect_in_range:
  "in_range customer \<Longrightarrow> in_range (scenario_effect customer changeJson)"
  by (simp add: scenario_effect_def applyScenarioImpact_in_range)

subsection \<open>The page and the server together\<close>

lemma validate_accepts:
  assumes "validateScenarioData sanitize body = Inr (c, n, j)"
  shows "req_customer_id body = Some c" "req_change_json body = Some j" "0 < c"
  using assms
  by (auto simp: validateScenarioData_def split: option.splits if_splits)

lemma post_scenario_created:
  assumes "snd (post_scenario sanitize db body) = Created"
      and "req_customer_id body = Some cid" "req_change_json body = Some cj"
      and "twins db cid = Some t"
  shows "twins (fst (post_scenario sanitize db body)) = (twins db)(cid \<mapsto> scenario_effect t cj)"
proof (cases "validateScenarioData sanitize body")
  case (Inl e)
  with assms(1) show ?thesis by (simp add: post_scenario_def)
next
  case (Inr r)
  obtain c n j where r: "r = (c, n, j)" by (cases r)
  from validate_accepts [OF Inr [unfolded r]] assms(2,3) have "c = cid" "j = cj" by simp_all
  with Inr r assms(4) show ?thesis
    by (auto simp: post_scenario_def scenario_effect_def Let_def)
qed

lemma post_scenario_not_created:
  assumes "snd (post_scenario sanitize db body) \<noteq> Created" "req_customer_id body = Some cid"
    "twins db cid = Some t"
  shows "twins (fst (post_scenario sanitize db body)) = twins db"
proof (cases "validateScenarioData sanitize body")
  case (Inl e)
  then show ?thesis by (simp add: post_scenario_def)
next
  case (Inr r)
  obtain c n j where r: "r = (c, n, j)" by (cases r)
  from validate_accepts [OF Inr [unfolded r]] assms(2) have "c = cid" by simp
  with Inr r assms(1,3) show ?thesis
    by (auto simp: post_scenario_def Let_def)
qed

lemma applyScenario_on_loaded:
  assumes "loaded db cid t p"
  shows "applyScenario fmt sanitize p db s d action =
     (let (change, h, isNoChange) = build_change (stateDeductibleHistory p) (Some (state t)) s d action;
          body = \<lparr>req_customer_id = Some cid, req_name = Some (scenarioName fmt change s isNoChange),
                  req_change_json = Some change\<rparr>;
          (db', out) = post_scenario sanitize db body
      in (loadTwin db' cid (p\<lparr>stateDeductibleHistory := h\<rparr>), db', Some out))"
  using assms by (simp add: loaded_def applyScenario_def twin_state_def Let_def)


lemma loadTwin_of_loaded:
  assumes "loaded db cid t p"
  shows "loadTwin db cid (p\<lparr>stateDeductibleHistory := h\<rparr>) = p"
  using assms by (cases p) (simp add: loaded_def loadTwin_def get_twin_def Let_def)




lemma scenario_effect_name: "name (scenario_effect t c) = name t"
  by (simp add: scenario_effect_def applyScenarioImpact_def Let_def)





lemma flagged_changes_nothing:
  assumes l: "loaded db cid t p"
      and f: "snd (snd (build_change (stateDeductibleHistory p) (Some (state t)) s d action))"
  shows "fst (applyScenario fmt sanitize p db s d action) = p"
    and "twins (fst (snd (applyScenario fmt sanitize p db s d action))) = twins db"
proof -
  obtain change h flag where b: "build_change (stateDeductibleHistory p) (Some (state t)) s d action = (change, h, flag)"
    by (cases "build_change (stateDeductibleHistory p) (Some (state t)) s d action") auto
  with f have flag: "flag" by simp
  from b flag have nc: "no_change change" and h: "h = stateDeductibleHistory p"
    by (auto simp: build_change_def adjust_deductible_def Let_def split: if_splits prod.splits)
  let ?body = "\<lparr>req_customer_id = Some cid, req_name = Some (scenarioName fmt change s flag),
                  req_change_json = Some change\<rparr>"
  obtain db' out where ps: "post_scenario sanitize db ?body = (db', out)"
    by (cases "post_scenario sanitize db ?body") auto
  have eq: "applyScenario fmt sanitize p db s d action
              = (loadTwin db' cid (p\<lparr>stateDeductibleHistory := h\<rparr>), db', Some out)"
    by (simp add: applyScenario_on_loaded [OF l] b ps)
  from l have cid: "0 < cid" and tw: "twins db cid = Some t" by (simp_all add: loaded_def)
  have tw': "twins db' = twins db"
  proof (cases "out = Created")
    case True
    then have "twins db' = (twins db)(cid \<mapsto> scenario_effect t change)"
      using post_scenario_created [of sanitize db ?body cid change t] ps tw by simp
    with nc tw show ?thesis by (simp add: scenario_effect_def fun_upd_idem)
  next
    case False
    then show ?thesis
      using post_scenario_not_created [of sanitize db ?body cid t] ps tw by simp
  qed
  then show "twins (fst (snd (applyScenario fmt sanitize p db s d action))) = twins db"
    by (simp add: eq)
  have "loaded db' cid t p"
    using l tw' by (simp add: loaded_def)
  from loadTwin_of_loaded [OF this] show "fst (applyScenario fmt sanitize p db s d action) = p"
    by (simp add: eq)
qed


subsection \<open>Bounds\<close>

text \<open>
  C1. Whatever the customer's row and whatever the change, the row that
  \<open>applyScenarioImpact\<close> writes has its score in \<open>[0, 100]\<close>, its claim probability in
  \<open>[0, 1]\<close> and a non-negative expected loss, and each of the three is the bound of the
  complete product: the input times the state adjustment times the deductible impact
  factor, bounded once at the end. What the handler does with a change (where a no-change
  request leaves the row as it is) keeps a row that is in range in range.
\<close>

theorem scenario_impact_clamped_last:
  "in_range (applyScenarioImpact customer changeJson) \<and>
   base_risk_score (applyScenarioImpact customer changeJson) =
     max 0 (min 100 (base_risk_score customer * stateAdjustment customer changeJson
                       * deductibleImpactFactor changeJson)) \<and>
   next12m_claim_prob (applyScenarioImpact customer changeJson) =
     max 0 (min 1 (next12m_claim_prob customer * stateAdjustment customer changeJson
                     * deductibleImpactFactor changeJson)) \<and>
   next12m_expected_loss (applyScenarioImpact customer changeJson) =
     max 0 (next12m_expected_loss customer * stateAdjustment customer changeJson
              * deductibleImpactFactor changeJson) \<and>
   (in_range customer \<longrightarrow> in_range (scenario_effect customer changeJson))"
proof -
  have "in_range customer \<longrightarrow> in_range (scenario_effect customer changeJson)"
    by (simp add: scenario_effect_in_range)
  then show ?thesis
    by (simp add: applyScenarioImpact_in_range) (simp add: applyScenarioImpact_def Let_def)
qed

text \<open>
  Witness for C1: the customer in Florida is in range, and stays in range when moved to
  California with the deductible raised by 500.
\<close>

theorem scenario_impact_clamped_last_witness:
  "in_range florida_twin \<and>
   in_range (scenario_effect florida_twin
     (empty_change\<lparr>move_state := Some ''CA'', increase_deductible := Some 500\<rparr>))"
  using scenario_impact_clamped_last
          [of florida_twin "empty_change\<lparr>move_state := Some ''CA'', increase_deductible := Some 500\<rparr>"]
  by (simp add: florida_twin_def in_range_def)

text \<open>The rows of the table stay in range through a scenario request and through a whole call.\<close>

lemma post_scenario_keeps_range:
  assumes "\<And>c t. twins db c = Some t \<Longrightarrow> in_range t"
      and "twins (fst (post_scenario sanitize db body)) c = Some t"
  shows "in_range t"
  using assms applyScenarioImpact_in_range
  by (auto simp: post_scenario_def Let_def split: sum.splits prod.splits option.splits if_splits)

lemma applyScenario_keeps_range:
  assumes "\<And>c t. twins db c = Some t \<Longrightarrow> in_range t"
      and "twins (fst (snd (applyScenario fmt sanitize p db s d action))) c = Some t"
  shows "in_range t"
proof (cases "\<exists>cid tw. currentId p = Some cid \<and> cid \<noteq> 0 \<and> currentTwin p = Some tw")
  case True
  then obtain cid tw where p: "currentId p = Some cid" "cid \<noteq> 0" "currentTwin p = Some tw"
    by blast
  obtain change h flag
    where b: "build_change (stateDeductibleHistory p) (twin_state tw) s d action = (change, h, flag)"
    by (cases "build_change (stateDeductibleHistory p) (twin_state tw) s d action") auto
  let ?body = "\<lparr>req_customer_id = Some cid, req_name = Some (scenarioName fmt change s flag),
                  req_change_json = Some change\<rparr>"
  have "fst (snd (applyScenario fmt sanitize p db s d action)) = fst (post_scenario sanitize db ?body)"
    using p b by (simp add: applyScenario_def Let_def split: prod.splits)
  with assms(2) post_scenario_keeps_range [of db sanitize ?body c t] assms(1) show ?thesis
    by simp
next
  case False
  then have "fst (snd (applyScenario fmt sanitize p db s d action)) = db"
    by (auto simp: applyScenario_def split: option.splits)
  with assms show ?thesis by simp
qed

subsection \<open>The no-change flag\<close>

text \<open>
  C2 fails where the history has no entry for the state the customer is in. The customer
  known by name, living in Florida, has the built-in history, which knows nothing of
  Florida. Naming Florida as the target with no amount builds an empty change that is not
  flagged; the page posts it under the name of a move to Florida, the server accepts it and
  writes the row it read, and the page afterwards is the page before. The row after agrees
  with the row before in every field and the ledger is not updated, yet the flag is not set.
\<close>

theorem same_state_without_entry_not_flagged:
  "stateDeductibleHistory (carlos_page ''FL'') ''FL'' = None \<and>
   build_change (stateDeductibleHistory (carlos_page ''FL'')) (Some ''FL'') ''FL'' 0 ''increase''
     = (empty_change, stateDeductibleHistory (carlos_page ''FL''), False) \<and>
   applyScenario fmt sanitize (carlos_page ''FL'') (carlos_db ''FL'') ''FL'' 0 ''increase''
     = (carlos_page ''FL'',
        (carlos_db ''FL'')\<lparr>scenarios := [(4, sanitize ''What-if: move to FL'', empty_change)],
                          timeline_events := [4]\<rparr>,
        Some Created) \<and>
   same_profile (the (twins (carlos_db ''FL'') 4))
     (the (twins (fst (snd (applyScenario fmt sanitize (carlos_page ''FL'') (carlos_db ''FL'')
                              ''FL'' 0 ''increase''))) 4))"
  by (simp add: carlos_page_def carlos_db_def carlos_def page_defs scenario_defs same_profile_def)

text \<open>
  With an entry that is not zero the same request is flagged, as is a request with no
  target and no amount.
\<close>

lemma same_state_with_entry_flagged:
  assumes "s \<noteq> []" "truthy_num (h s)"
  shows "build_change h (Some s) s 0 action
           = (empty_change\<lparr>no_change := True, reason := Some (AlreadyIn s (the (h s)))\<rparr>, h, True)"
  using assms by (simp add: build_change_def)

lemma nothing_entered_flagged:
  "build_change h cur [] 0 action
     = (empty_change\<lparr>no_change := True, reason := Some NoChangesSpecified\<rparr>, h, True)"
  by (simp add: build_change_def)

subsection \<open>The example\<close>




subsection \<open>The round trip\<close>

text \<open>
  The trace of the customer known by name, from Washington to Louisiana and back with no
  amount: the first move announces 2500 as restored, the second 1750, and the history is
  the built-in one throughout.
\<close>

lemma named_customer_round_trip:
  "restore_deductible
     (fst (build_change (stateDeductibleHistory (carlos_page ''WA'')) (Some ''WA'') ''LA'' 0 act))
     = Some 2500 \<and>
   stateDeductibleHistory
     (fst (applyScenario example_fmt example_sanitize (carlos_page ''WA'') (carlos_db ''WA'')
             ''LA'' 0 act))
     = stateDeductibleHistory (carlos_page ''WA'') \<and>
   restore_deductible
     (fst (build_change (stateDeductibleHistory (carlos_page ''WA'')) (Some ''LA'') ''WA'' 0 act))
     = Some 1750 \<and>
   stateDeductibleHistory (carlos_page ''WA'') ''WA'' = Some 1750"
  by (simp add: carlos_page_def carlos_db_def carlos_def page_defs scenario_defs
        example_fmt_def example_sanitize_def)




subsection \<open>Validation\<close>

text \<open>A request that validation rejects changes no table.\<close>

lemma rejected_request_changes_nothing:
  "snd (post_scenario sanitize db body) = Rejected e \<Longrightarrow>
   fst (post_scenario sanitize db body) = db"
  by (auto simp: post_scenario_def Let_def split: sum.splits prod.splits option.splits if_splits)

text \<open>Whether a request is rejected does not depend on \<open>decrease_deductible\<close>.\<close>

lemma validation_ignores_decrease:
  "isl (validateScenarioData sanitize
          (body\<lparr>req_change_json := Some (cj\<lparr>decrease_deductible := x\<rparr>)\<rparr>))
     = isl (validateScenarioData sanitize (body\<lparr>req_change_json := Some cj\<rparr>))"
  by (auto simp: validateScenarioData_def split: option.splits)

text \<open>
  C9 fails for a decrease. Validation bounds \<open>increase_deductible\<close> and never looks at
  \<open>decrease_deductible\<close>: a request to decrease the deductible by \<open>-500\<close> is accepted,
  and the handler multiplies the three risk numbers of the customer by 0.95. The same
  amount as an increase is rejected and changes nothing.
\<close>

theorem negative_decrease_not_rejected:
  "validateScenarioData sanitize (deductible_request False (- 500)) =
     Inr (1, sanitize ''What-if'', empty_change\<lparr>decrease_deductible := Some (- 500)\<rparr>) \<and>
   snd (post_scenario sanitize example_db (deductible_request False (- 500))) = Created \<and>
   twins (fst (post_scenario sanitize example_db (deductible_request False (- 500)))) 1 =
     Some (florida_twin\<lparr>base_risk_score := 78.5 * 0.95, next12m_claim_prob := 0.38 * 0.95,
             next12m_expected_loss := 4200 * 0.95\<rparr>) \<and>
   post_scenario sanitize example_db (deductible_request True (- 500)) =
     (example_db, Rejected INVALID_DEDUCTIBLE)"
  by (simp add: scenario_defs post_scenario_def validateScenarioData_def deductible_request_def
        example_db_def florida_twin_def)

section \<open>Risk recalculation: properties\<close>

lemma risk_adjustments_eq:
  "risk_adjustments customerState externalFactors temporal =
     \<lparr>adj_weather =
        (if severe_weather_probability (weather externalFactors) > 0.2
         then severe_weather_probability (weather externalFactors) * 10 else 0)
        + (if hurricane_season (weather externalFactors) \<and> customerState \<in> set hurricane_states
           then 3 else 0),
      adj_economic =
        (if unemployment_rate (economic externalFactors) > 0.06
         then (unemployment_rate (economic externalFactors) - 0.06) * 50 else 0),
      adj_traffic = accident_rate_increase (traffic externalFactors) * 20,
      adj_market = claims_frequency_trend (market externalFactors) * 15,
      adj_temporal = temporal\<rparr>"
  by (simp add: risk_adjustments_def Let_def)

lemma smoothedAdjustment_eq:
  "smoothedAdjustment a =
     (adj_weather a + adj_economic a + adj_traffic a + adj_market a + adj_temporal a) * 0.7"
  by (simp add: smoothedAdjustment_def totalAdjustment_def)

lemma calculateRiskScore_fields:
  "factors (calculateRiskScore customerData externalFactors temporal rnd) =
     risk_adjustments (state customerData) externalFactors temporal"
  "adjustment (calculateRiskScore customerData externalFactors temporal rnd) =
     toFixed 1 (smoothedAdjustment (risk_adjustments (state customerData) externalFactors temporal))"
  "new_score (calculateRiskScore customerData externalFactors temporal rnd) =
     toFixed 1 (max 0 (min 100 (base_risk_score customerData
        + smoothedAdjustment (risk_adjustments (state customerData) externalFactors temporal))))"
  by (simp_all add: calculateRiskScore_def Let_def)

lemma calm_adjustments:
  "risk_adjustments ''FL'' calm 0 =
     \<lparr>adj_weather = 0, adj_economic = 0, adj_traffic = 0.2, adj_market = 0, adj_temporal = 0\<rparr>"
  by (simp add: risk_adjustments_eq) (simp add: calm_def)

text \<open>
  C8, as stated, fails on the reported delta: with a traffic contribution of 0.2 and all
  other contributions zero, the sum times 0.7 is 0.14, and the \<open>adjustment\<close> that
  \<open>calculateRiskScore\<close> returns is 0.1.
\<close>

theorem adjustment_unrounded_counterexample:
  "smoothedAdjustment (risk_adjustments ''FL'' calm 0) = 0.14 \<and>
   adjustment (calculateRiskScore florida_twin calm 0 0) = 0.1"
proof -
  have st: "state florida_twin = ''FL''"
    by (simp add: florida_twin_def)
  have sm: "smoothedAdjustment (risk_adjustments ''FL'' calm 0) = 0.14"
    by (simp add: calm_adjustments smoothedAdjustment_eq)
  have rd: "toFixed 1 0.14 = 0.1"
    by (simp add: toFixed_def)
  have "adjustment (calculateRiskScore florida_twin calm 0 0) = toFixed 1 0.14"
    unfolding calculateRiskScore_fields st sm ..
  with sm rd show ?thesis
    by (simp only:)
qed

text \<open>
  C8, amended. The five contributions are computed independently: the weather
  contribution is the probability times 10 above 0.2 and zero otherwise, plus 3 in the
  hurricane season for a customer of a hurricane state; the economic contribution is the
  excess of the unemployment rate over 0.06 times 50, zero without excess; the traffic
  and market contributions are the rates times 20 and times 15; the temporal contribution
  is the value supplied. Their sum times 0.7 is added to the base score, which is then
  bounded to \<open>[0, 100]\<close> and rounded to one decimal; the reported \<open>adjustment\<close> is the
  sum times 0.7 rounded to one decimal.
\<close>

theorem risk_score_adjustment_rounded:
  "factors (calculateRiskScore customerData externalFactors temporal rnd) =
     \<lparr>adj_weather =
        (if severe_weather_probability (weather externalFactors) > 0.2
         then severe_weather_probability (weather externalFactors) * 10 else 0)
        + (if hurricane_season (weather externalFactors) \<and> state customerData \<in> set hurricane_states
           then 3 else 0),
      adj_economic =
        (if unemployment_rate (economic externalFactors) > 0.06
         then (unemployment_rate (economic externalFactors) - 0.06) * 50 else 0),
      adj_traffic = accident_rate_increase (traffic externalFactors) * 20,
      adj_market = claims_frequency_trend (market externalFactors) * 15,
      adj_temporal = temporal\<rparr> \<and>
   smoothedAdjustment a =
     (adj_weather a + adj_economic a + adj_traffic a + adj_market a + adj_temporal a) * 0.7 \<and>
   adjustment (calculateRiskScore customerData externalFactors temporal rnd) =
     toFixed 1 (smoothedAdjustment (factors (calculateRiskScore customerData externalFactors temporal rnd))) \<and>
   new_score (calculateRiskScore customerData externalFactors temporal rnd) =
     toFixed 1 (max 0 (min 100 (base_risk_score customerData
        + smoothedAdjustment (factors (calculateRiskScore customerData externalFactors temporal rnd)))))"
  unfolding calculateRiskScore_fields
  using risk_adjustments_eq smoothedAdjustment_eq by blast

section \<open>Forecast models: properties\<close>

lemmas forecast_defs =
  ensembleForecast_def linearRegressionForecast_def exponentialSmoothingForecast_def
  arimaForecast_def generateStaticForecast_def calculateLinearRegression_def smoothedValue_def
  differences_def avgDifference_def toFixed_def js_sub_def js_lt_def signed_inf_def Let_def
  upt_rec point_def

lemma length_linearRegressionForecast [simp]:
  "length (linearRegressionForecast data c n) = n"
  by (simp add: linearRegressionForecast_def generateStaticForecast_def Let_def split: prod.splits)

lemma length_exponentialSmoothingForecast [simp]:
  "length (exponentialSmoothingForecast data c n) = n"
  by (simp add: exponentialSmoothingForecast_def)

lemma length_arimaForecast [simp]: "length (arimaForecast data c n) = n"
  by (simp add: arimaForecast_def)

lemma length_ensembleForecast [simp]: "length (ensembleForecast data c n) = n"
  by (simp add: ensembleForecast_def Let_def)

subsection \<open>Rounding\<close>

lemma toFixed_mono:
  assumes "0 \<le> x" "x \<le> y" "y < 10 ^ 21"
  shows "toFixed f x \<le> toFixed f y"
proof -
  have "x * 10 ^ f + 1 / 2 \<le> y * 10 ^ f + 1 / 2"
    using assms by (simp add: mult_right_mono)
  then have "\<lfloor>x * 10 ^ f + 1 / 2\<rfloor> \<le> \<lfloor>y * 10 ^ f + 1 / 2\<rfloor>"
    by (rule floor_mono)
  then have "(of_int \<lfloor>x * 10 ^ f + 1 / 2\<rfloor> :: real) / 10 ^ f
               \<le> of_int \<lfloor>y * 10 ^ f + 1 / 2\<rfloor> / 10 ^ f"
    by (simp add: divide_right_mono)
  then show ?thesis
    using assms by (simp add: toFixed_def)
qed

lemma toFixed_2_bounds:
  assumes "0.3 \<le> x" "x \<le> 0.9"
  shows "0.3 \<le> toFixed 2 x" "toFixed 2 x \<le> 0.9"
proof -
  have a: "toFixed 2 0.3 = 0.3" by (simp add: toFixed_def)
  have b: "toFixed 2 0.9 = 0.9" by (simp add: toFixed_def)
  have "toFixed 2 0.3 \<le> toFixed 2 x"
    using assms by (intro toFixed_mono) auto
  then show "0.3 \<le> toFixed 2 x"
    using a by simp
  have "toFixed 2 x \<le> toFixed 2 0.9"
    using assms by (intro toFixed_mono) auto
  then show "toFixed 2 x \<le> 0.9"
    using b by simp
qed

lemma toFixed_1_tenth: "0 \<le> x \<Longrightarrow> x < 10 ^ 21 \<Longrightarrow> tenth (toFixed 1 x)"
  by (simp add: toFixed_def tenth_def)

lemma toFixed_1_near:
  assumes "0 \<le> x" "x < 10 ^ 21"
  shows "toFixed 1 x \<le> x + 1 / 20" "x - 1 / 20 < toFixed 1 x"
proof -
  have eq: "toFixed 1 x = real_of_int \<lfloor>x * 10 + 1 / 2\<rfloor> / 10"
    using assms by (simp add: toFixed_def)
  have "real_of_int \<lfloor>x * 10 + 1 / 2\<rfloor> \<le> x * 10 + 1 / 2"
    by (rule of_int_floor_le)
  then show "toFixed 1 x \<le> x + 1 / 20"
    unfolding eq by linarith
  have "x * 10 + 1 / 2 < real_of_int \<lfloor>x * 10 + 1 / 2\<rfloor> + 1"
    by linarith
  then show "x - 1 / 20 < toFixed 1 x"
    unfolding eq by linarith
qed

lemma toFixed_1_unique:
  assumes "tenth e" "0 \<le> x" "x < 10 ^ 21" "\<bar>x - e\<bar> < 1 / 20"
  shows "toFixed 1 x = e"
proof -
  define k where "k = \<lfloor>e * 10\<rfloor>"
  from assms(1) have "real_of_int k = e * 10"
    unfolding tenth_def k_def .
  then have e: "e = real_of_int k / 10"
    by simp
  have "real_of_int k \<le> x * 10 + 1 / 2" "x * 10 + 1 / 2 < real_of_int k + 1"
    using assms(4) unfolding e by linarith+
  then have "\<lfloor>x * 10 + 1 / 2\<rfloor> = k"
    by (intro floor_unique)
  then show ?thesis
    using assms e by (simp add: toFixed_def)
qed

lemma toFixed_1_fix: "tenth e \<Longrightarrow> 0 \<le> e \<Longrightarrow> e < 10 ^ 21 \<Longrightarrow> toFixed 1 e = e"
  by (rule toFixed_1_unique) simp_all

lemma toFixed_1_range:
  assumes "0 \<le> x" "x \<le> 100"
  shows "0 \<le> toFixed 1 x" "toFixed 1 x \<le> 100"
proof -
  have "toFixed 1 0 \<le> toFixed 1 x" using assms by (intro toFixed_mono) auto
  then show "0 \<le> toFixed 1 x" by (simp add: toFixed_def)
  have "toFixed 1 x \<le> toFixed 1 100" using assms by (intro toFixed_mono) auto
  then show "toFixed 1 x \<le> 100" by (simp add: toFixed_def)
qed

lemma smoothed_range:
  assumes "0 \<le> c" "c \<le> 100"
      and "list_all (\<lambda>p. 0 \<le> risk_score_at_time p \<and> risk_score_at_time p \<le> 100) data"
  shows "0 \<le> smoothedValue data c \<and> smoothedValue data c \<le> 100"
  using assms unfolding smoothedValue_def Let_def
proof (induction data arbitrary: c)
  case Nil
  then show ?case by simp
next
  case (Cons p ps)
  have "0 \<le> 0.3 * risk_score_at_time p + (1 - 0.3) * c"
       "0.3 * risk_score_at_time p + (1 - 0.3) * c \<le> 100"
    using Cons.prems by auto
  with Cons show ?case by simp
qed

text \<open>
  Blending: a value \<open>c\<close> that is not rounded with the rounded value \<open>e\<close> taken twice.
\<close>

lemma blend_static:
  assumes c: "0 \<le> c" "c \<le> 100" and e: "tenth e" "0 \<le> e" "e \<le> 100"
  shows "min c e \<le> toFixed 1 (c * 0.3 + e * 0.3 + e * 0.4)"
    and "toFixed 1 (c * 0.3 + e * 0.3 + e * 0.4) \<le> max c e"
proof -
  let ?w = "c * 0.3 + e * 0.3 + e * 0.4"
  have w: "0 \<le> ?w" "?w < 10 ^ 21" using c e by auto
  have efix: "toFixed 1 e = e" using e by (intro toFixed_1_fix) auto
  show "min c e \<le> toFixed 1 ?w"
  proof (cases "e \<le> c")
    case True
    then have "toFixed 1 e \<le> toFixed 1 ?w" using e w by (intro toFixed_mono) auto
    with True efix show ?thesis by simp
  next
    case False
    show ?thesis
    proof (cases "e - c < 1 / 14")
      case True
      with False have "\<bar>?w - e\<bar> < 1 / 20" by (simp add: abs_less_iff)
      then have "toFixed 1 ?w = e" using e w by (intro toFixed_1_unique) auto
      with False show ?thesis by simp
    next
      case far: False
      have "?w - 1 / 20 < toFixed 1 ?w" using w by (rule toFixed_1_near)
      with far False show ?thesis by simp
    qed
  qed
  show "toFixed 1 ?w \<le> max c e"
  proof (cases "e \<le> c")
    case True
    show ?thesis
    proof (cases "c - e < 1 / 14")
      case near: True
      with True have "\<bar>?w - e\<bar> < 1 / 20" by (simp add: abs_less_iff)
      then have "toFixed 1 ?w = e" using e w by (intro toFixed_1_unique) auto
      with True show ?thesis by simp
    next
      case far: False
      have "toFixed 1 ?w \<le> ?w + 1 / 20" using w by (rule toFixed_1_near)
      with far True show ?thesis by simp
    qed
  next
    case False
    then have "toFixed 1 ?w \<le> toFixed 1 e" using e c by (intro toFixed_mono) auto
    with False efix show ?thesis by simp
  qed
qed

text \<open>Blending three rounded values.\<close>

lemma blend_tenths:
  assumes l: "tenth l" "0 \<le> l" "l \<le> 100" and e: "tenth e" "0 \<le> e" "e \<le> 100"
      and a: "tenth a" "0 \<le> a" "a \<le> 100"
  shows "min l (min e a) \<le> toFixed 1 (l * 0.3 + e * 0.3 + a * 0.4)"
    and "toFixed 1 (l * 0.3 + e * 0.3 + a * 0.4) \<le> max l (max e a)"
proof -
  let ?w = "l * 0.3 + e * 0.3 + a * 0.4"
  let ?m = "min l (min e a)" and ?M = "max l (max e a)"
  have m: "tenth ?m" "0 \<le> ?m" "?m \<le> 100" using l e a by (auto simp: min_def)
  have M: "tenth ?M" "0 \<le> ?M" "?M \<le> 100" using l e a by (auto simp: max_def)
  have mw: "?m \<le> ?w" by (auto simp: min_def)
  have wM: "?w \<le> ?M" by (auto simp: max_def)
  have "toFixed 1 ?m \<le> toFixed 1 ?w" using m mw wM M by (intro toFixed_mono) auto
  moreover have "toFixed 1 ?m = ?m" using m by (intro toFixed_1_fix) auto
  ultimately show "?m \<le> toFixed 1 ?w" by simp
  have "toFixed 1 ?w \<le> toFixed 1 ?M" using m mw wM M by (intro toFixed_mono) auto
  moreover have "toFixed 1 ?M = ?M" using M by (intro toFixed_1_fix) auto
  ultimately show "toFixed 1 ?w \<le> ?M" by simp
qed


subsection \<open>Confidence\<close>

lemma confidence_between_mapI:
  assumes "\<And>i j. i \<le> j \<Longrightarrow> j < n \<Longrightarrow> confidence (f j) \<le> confidence (f i)"
      and "\<And>i. i < n \<Longrightarrow> lo \<le> confidence (f i) \<and> confidence (f i) \<le> hi"
  shows "confidence_between lo hi (map f [0..<n])"
  using assms
  by (auto simp: confidence_between_def sorted_wrt_iff_nth_less list_all_iff)

lemma confidence_between_nth:
  assumes "confidence_between lo hi ps" "i \<le> j" "j < length ps"
  shows "confidence (ps ! j) \<le> confidence (ps ! i)"
    and "lo \<le> confidence (ps ! j)"
    and "confidence (ps ! j) \<le> hi"
proof -
  show "confidence (ps ! j) \<le> confidence (ps ! i)"
  proof (cases "i = j")
    case True
    then show ?thesis by simp
  next
    case False
    with assms have "i < j" by simp
    with assms show ?thesis
      by (auto simp: confidence_between_def sorted_wrt_iff_nth_less)
  qed
  show "lo \<le> confidence (ps ! j)" "confidence (ps ! j) \<le> hi"
    using assms by (auto simp: confidence_between_def list_all_length)
qed

lemma confidence_between_ok:
  "confidence_between 0.3 0.9 ps \<Longrightarrow> confidence_ok ps"
  by (auto simp: confidence_between_def confidence_ok_def list_all_iff)

lemma static_between: "confidence_between 0.3 0.9 (generateStaticForecast c n)"
  unfolding generateStaticForecast_def
  by (rule confidence_between_mapI) (auto simp: max_def)

lemma linear_between: "confidence_between 0.3 0.9 (linearRegressionForecast data c n)"
proof (cases "length data < 2")
  case True
  then show ?thesis
    by (simp add: linearRegressionForecast_def static_between)
next
  case False
  have "confidence_between 0.3 0.9
          (map (\<lambda>i. \<lparr>period = i + 1, predicted_risk = g i,
                     confidence = max 0.3 (0.9 - real i * 0.1)\<rparr>) [0..<n])" for g
    by (rule confidence_between_mapI) (auto simp: max_def)
  with False show ?thesis
    by (simp add: linearRegressionForecast_def Let_def split: prod.splits)
qed

lemma exp_between: "confidence_between 0.3 0.9 (exponentialSmoothingForecast data c n)"
  unfolding exponentialSmoothingForecast_def
  by (rule confidence_between_mapI) (auto simp: max_def)

lemma arima_between: "confidence_between 0.3 0.9 (arimaForecast data c n)"
proof (cases "length data < 3")
  case True
  then show ?thesis
    by (simp add: arimaForecast_def exp_between)
next
  case False
  have "confidence_between 0.3 0.9
          (map (\<lambda>i. \<lparr>period = i + 1, predicted_risk = g i,
                     confidence = max 0.5 (0.9 - real i * 0.05)\<rparr>) [0..<n])" for g
    by (rule confidence_between_mapI) (auto simp: max_def)
  with False show ?thesis
    by (simp add: arimaForecast_def Let_def)
qed

lemma ensemble_between: "confidence_between 0.3 0.9 (ensembleForecast data c n)"
proof -
  let ?l = "linearRegressionForecast data c n"
  let ?e = "exponentialSmoothingForecast data c n"
  let ?a = "arimaForecast data c n"
  let ?w = "\<lambda>i. confidence (?l ! i) * 0.3 + confidence (?e ! i) * 0.3 + confidence (?a ! i) * 0.4"
  have mono: "?w j \<le> ?w i" and lo: "0.3 \<le> ?w j" and hi: "?w j \<le> 0.9"
    if "i \<le> j" "j < n" for i j
  proof -
    note l = confidence_between_nth [OF linear_between, of i j data c n]
    note e = confidence_between_nth [OF exp_between, of i j data c n]
    note a = confidence_between_nth [OF arima_between, of i j data c n]
    show "?w j \<le> ?w i" using l(1) e(1) a(1) that by simp
    show "0.3 \<le> ?w j" using l(2) e(2) a(2) that by simp
    show "?w j \<le> 0.9" using l(3) e(3) a(3) that by simp
  qed
  have "confidence_between 0.3 0.9
          (map (\<lambda>i. \<lparr>period = i + 1, predicted_risk = g i,
                     confidence = toFixed 2 (?w i)\<rparr>) [0..<n])" for g
  proof (rule confidence_between_mapI)
    fix i j
    assume ij: "i \<le> j" "j < n"
    have "toFixed 2 (?w j) \<le> toFixed 2 (?w i)"
      using mono [OF ij] lo [OF ij] hi [of i i] ij by (intro toFixed_mono) auto
    then show "confidence \<lparr>period = j + 1, predicted_risk = g j, confidence = toFixed 2 (?w j)\<rparr>
                 \<le> confidence \<lparr>period = i + 1, predicted_risk = g i, confidence = toFixed 2 (?w i)\<rparr>"
      by simp
  next
    fix i
    assume "i < n"
    then show "0.3 \<le> confidence \<lparr>period = i + 1, predicted_risk = g i, confidence = toFixed 2 (?w i)\<rparr> \<and>
               confidence \<lparr>period = i + 1, predicted_risk = g i, confidence = toFixed 2 (?w i)\<rparr> \<le> 0.9"
      using toFixed_2_bounds [OF lo [of i i] hi [of i i]] by simp
  qed
  then show ?thesis
    by (simp add: ensembleForecast_def Let_def)
qed

text \<open>
  C6. For each of the three models and for the ensemble, on every history, current value
  and number of periods, the confidences never increase from a period to a later one and
  each lies in \<open>(0, 1]\<close>.
\<close>

theorem forecast_confidence_monotone_bounded:
  "confidence_ok (linearRegressionForecast data c n) \<and>
   confidence_ok (exponentialSmoothingForecast data c n) \<and>
   confidence_ok (arimaForecast data c n) \<and>
   confidence_ok (ensembleForecast data c n)"
  by (simp add: confidence_between_ok linear_between exp_between arima_between ensemble_between)

text \<open>The same period by period.\<close>

lemma confidence_ok_nth:
  assumes "confidence_ok ps" "i + 1 < length ps"
  shows "confidence (ps ! (i + 1)) \<le> confidence (ps ! i)"
    and "0 < confidence (ps ! i)"
    and "confidence (ps ! i) \<le> 1"
  using assms
  by (auto simp: confidence_ok_def sorted_wrt_iff_nth_less list_all_length)

subsection \<open>The autoregressive model\<close>

lemma differences_nth:
  "k + 1 < length data \<Longrightarrow>
   differences data ! k = risk_score_at_time (data ! (k + 1)) - risk_score_at_time (data ! k)"
  by (simp add: differences_def nth_tl)

lemma length_differences: "length (differences data) = length data - 1"
  by (simp add: differences_def)

lemma foldl_plus_sum_list: "foldl (+) (a::real) xs = a + sum_list xs"
  by (induction xs arbitrary: a) simp_all

text \<open>
  C7, as stated, fails: the prediction is rounded to one decimal. With the series
  60, 60, 60.25 the mean step is 0.125; from the current value 60.25 the first period is
  60.375 before rounding, and the model returns 60.4.
\<close>

theorem arima_unrounded_counterexample:
  "avgDifference [point 0 60, point 30 60, point 60 60.25] = 0.125 \<and>
   map predicted_risk (arimaForecast [point 0 60, point 30 60, point 60 60.25] 60.25 1)
     = [Fin 60.4] \<and>
   max 0 (min 100 (60.25 + avgDifference [point 0 60, point 30 60, point 60 60.25] * 1)) = 60.375"
  by (simp add: forecast_defs)

text \<open>
  C7, amended. With at least three points the prediction of period \<open>i + 1\<close> is the
  current value plus \<open>i + 1\<close> times the mean of the successive differences, bounded to
  \<open>[0, 100]\<close> and then rounded to one decimal; with fewer than three points the model is the
  exponential smoothing. For the series 60, 62, 64 the mean step is 2, and from the
  current value 64 the three predictions are 66, 68 and 70.
\<close>

theorem arima_forecast_rounded:
  "(3 \<le> length data \<and> i < n \<longrightarrow>
      predicted_risk (arimaForecast data c n ! i)
        = Fin (toFixed 1 (max 0 (min 100 (c + avgDifference data * (real i + 1)))))) \<and>
   avgDifference data = sum_list (differences data) / real (length data - 1) \<and>
   (length data < 3 \<longrightarrow> arimaForecast data c n = exponentialSmoothingForecast data c n) \<and>
   avgDifference [point 0 60, point 30 62, point 60 64] = 2 \<and>
   map predicted_risk (arimaForecast [point 0 60, point 30 62, point 60 64] 64 3)
     = [Fin 66, Fin 68, Fin 70]"
proof -
  have "map predicted_risk (arimaForecast [point 0 60, point 30 62, point 60 64] 64 3)
          = [Fin 66, Fin 68, Fin 70]"
    by (simp add: forecast_defs)
  moreover have "avgDifference [point 0 60, point 30 62, point 60 64] = 2"
    by (simp add: forecast_defs)
  moreover have "avgDifference data = sum_list (differences data) / real (length data - 1)"
    by (simp add: avgDifference_def foldl_plus_sum_list length_differences)
  moreover have "3 \<le> length data \<and> i < n \<longrightarrow>
      predicted_risk (arimaForecast data c n ! i)
        = Fin (toFixed 1 (max 0 (min 100 (c + avgDifference data * (real i + 1)))))"
    by (simp add: arimaForecast_def Let_def)
  moreover have "length data < 3 \<longrightarrow>
      arimaForecast data c n = exponentialSmoothingForecast data c n"
    by (simp add: arimaForecast_def)
  ultimately show ?thesis by blast
qed

text \<open>
  Witness for C7: the series 60, 60, 60.25 with one period, and a series of two points.
\<close>

theorem arima_forecast_rounded_witness:
  "3 \<le> length [point 0 60, point 30 60, point 60 60.25] \<and> (0::nat) < 1 \<and>
   predicted_risk (arimaForecast [point 0 60, point 30 60, point 60 60.25] 60.25 1 ! 0) = Fin 60.4 \<and>
   length [point 0 60, point 30 62] < 3 \<and>
   arimaForecast [point 0 60, point 30 62] 62 3
     = exponentialSmoothingForecast [point 0 60, point 30 62] 62 3"
  using arima_forecast_rounded
          [where data = "[point 0 60, point 30 60, point 60 60.25]" and i = 0 and n = 1
             and c = "60.25"]
        arima_forecast_rounded
          [where data = "[point 0 60, point 30 62]" and i = 0 and n = 3 and c = 62]
  by (simp add: avgDifference_def differences_def point_def toFixed_def)

subsection \<open>The ensemble\<close>

lemma exp_nth:
  "i < n \<Longrightarrow> predicted_risk (exponentialSmoothingForecast data c n ! i)
     = Fin (toFixed 1 (smoothedValue data c))"
  by (simp add: exponentialSmoothingForecast_def)

lemma arima_nth:
  "i < n \<Longrightarrow> predicted_risk (arimaForecast data c n ! i)
     = (if length data < 3 then Fin (toFixed 1 (smoothedValue data c))
        else Fin (toFixed 1 (max 0 (min 100 (c + avgDifference data * (real i + 1))))))"
  by (simp add: arimaForecast_def exp_nth Let_def)

lemma linear_nth:
  "i < n \<Longrightarrow> predicted_risk (linearRegressionForecast data c n ! i)
     = (if length data < 2 then Fin c
        else js_toFixed 1 (js_max (Fin 0) (js_min (Fin 100)
               (js_add (js_mul (fst (calculateLinearRegression data))
                          (Fin (real_of_int (Max (set (map days_from_start data)) + (int i + 1) * 30))))
                       (snd (calculateLinearRegression data))))))"
  by (simp add: linearRegressionForecast_def generateStaticForecast_def Let_def split: prod.splits)

lemma ensemble_nth:
  "i < n \<Longrightarrow> predicted_risk (ensembleForecast data c n ! i)
     = js_toFixed 1
         (js_add (js_add (js_mul (predicted_risk (linearRegressionForecast data c n ! i)) (Fin 0.3))
                         (js_mul (predicted_risk (exponentialSmoothingForecast data c n ! i)) (Fin 0.3)))
                 (js_mul (predicted_risk (arimaForecast data c n ! i)) (Fin 0.4)))"
  by (simp add: ensembleForecast_def Let_def)

text \<open>
  The regression in exact arithmetic: the denominator of the slope vanishes exactly when
  all rows share one day, and then the numerator vanishes with it.
\<close>

lemma foldl_add_sum_list: "foldl (\<lambda>sum d. sum + f d) (a::real) xs = a + sum_list (map f xs)"
  by (induction xs arbitrary: a) simp_all

lemma sum_sq_inner:
  "sum_list (map (\<lambda>b. (a - b)\<^sup>2) xs)
     = real (length xs) * a\<^sup>2 - 2 * a * sum_list xs + sum_list (map (\<lambda>b. b\<^sup>2) xs)" for a :: real
  by (induction xs) (simp_all add: power2_eq_square algebra_simps)

lemma sum_quadratic:
  "sum_list (map (\<lambda>a. k * a\<^sup>2 - 2 * a * s + t) xs)
     = k * sum_list (map (\<lambda>a. a\<^sup>2) xs) - 2 * s * sum_list xs + real (length xs) * t" for k s t :: real
  by (induction xs) (simp_all add: algebra_simps)

lemma sum_sq_pairs:
  fixes xs :: "real list"
  shows "sum_list (map (\<lambda>a. sum_list (map (\<lambda>b. (a - b)\<^sup>2) xs)) xs)
     = 2 * (real (length xs) * sum_list (map (\<lambda>a. a\<^sup>2) xs) - (sum_list xs)\<^sup>2)"
proof -
  let ?n = "real (length xs)" and ?s1 = "sum_list xs" and ?s2 = "sum_list (map (\<lambda>a. a\<^sup>2) xs)"
  have "sum_list (map (\<lambda>a. sum_list (map (\<lambda>b. (a - b)\<^sup>2) xs)) xs)
          = sum_list (map (\<lambda>a. ?n * a\<^sup>2 - 2 * a * ?s1 + ?s2) xs)"
    by (simp only: sum_sq_inner)
  also have "\<dots> = ?n * ?s2 - 2 * ?s1 * ?s1 + ?n * ?s2"
    by (rule sum_quadratic)
  also have "\<dots> = 2 * (?n * ?s2 - ?s1\<^sup>2)"
    by (simp add: power2_eq_square)
  finally show ?thesis .
qed

lemma spread_zero_iff:
  fixes xs :: "real list"
  shows "real (length xs) * sum_list (map (\<lambda>a. a\<^sup>2) xs) - (sum_list xs)\<^sup>2 = 0
           \<longleftrightarrow> (\<forall>a \<in> set xs. \<forall>b \<in> set xs. a = b)"
proof -
  let ?pairs = "map (\<lambda>a. sum_list (map (\<lambda>b. (a - b)\<^sup>2) xs)) xs"
  have inner_nonneg: "0 \<le> sum_list (map (\<lambda>b. (a - b)\<^sup>2) xs)" for a
    by (rule sum_list_nonneg) auto
  have "real (length xs) * sum_list (map (\<lambda>a. a\<^sup>2) xs) - (sum_list xs)\<^sup>2 = 0
          \<longleftrightarrow> sum_list ?pairs = 0"
    by (simp add: sum_sq_pairs)
  also have "\<dots> \<longleftrightarrow> (\<forall>v \<in> set ?pairs. v = 0)"
    using inner_nonneg by (intro sum_list_nonneg_eq_0_iff) auto
  also have "\<dots> \<longleftrightarrow> (\<forall>a \<in> set xs. sum_list (map (\<lambda>b. (a - b)\<^sup>2) xs) = 0)"
    by auto
  also have "\<dots> \<longleftrightarrow> (\<forall>a \<in> set xs. \<forall>b \<in> set xs. a = b)"
  proof -
    have "sum_list (map (\<lambda>b. (a - b)\<^sup>2) xs) = 0 \<longleftrightarrow> (\<forall>b \<in> set xs. a = b)" for a
    proof -
      have "sum_list (map (\<lambda>b. (a - b)\<^sup>2) xs) = 0 \<longleftrightarrow> (\<forall>v \<in> set (map (\<lambda>b. (a - b)\<^sup>2) xs). v = 0)"
        by (intro sum_list_nonneg_eq_0_iff) auto
      then show ?thesis by auto
    qed
    then show ?thesis by simp
  qed
  finally show ?thesis .
qed


lemma same_day_iff:
  "same_day data \<longleftrightarrow> (\<forall>a \<in> set (map day data). \<forall>b \<in> set (map day data). a = b)"
  by (cases data) (auto simp: same_day_def day_def list_all_iff)

lemma calculateLinearRegression_sums:
  "calculateLinearRegression data =
     (let n = real (length data);
          sumX = sum_list (map day data);
          sumY = sum_list (map risk_score_at_time data);
          sumXY = sum_list (map (\<lambda>d. day d * risk_score_at_time d) data);
          sumXX = sum_list (map (\<lambda>d. (day d)\<^sup>2) data);
          slope = js_div (Fin (n * sumXY - sumX * sumY)) (Fin (n * sumXX - sumX\<^sup>2));
          intercept = js_div (js_sub (Fin sumY) (js_mul slope (Fin sumX))) (Fin n)
      in (slope, intercept))"
  by (simp add: calculateLinearRegression_def foldl_add_sum_list day_def [abs_def] power2_eq_square Let_def)

lemma denominator_zero_iff:
  "real (length data) * sum_list (map (\<lambda>d. (day d)\<^sup>2) data) - (sum_list (map day data))\<^sup>2 = 0
     \<longleftrightarrow> same_day data"
  using spread_zero_iff [of "map day data"] by (simp add: same_day_iff o_def)

lemma same_day_sums:
  assumes "\<forall>q \<in> set data. day q = x0"
  shows "sum_list (map (\<lambda>d. day d * risk_score_at_time d) data)
           = x0 * sum_list (map risk_score_at_time data)"
    and "sum_list (map day data) = real (length data) * x0"
  using assms by (induction data) (simp_all add: algebra_simps)

lemma numerator_zero:
  assumes "same_day data"
  shows "real (length data) * sum_list (map (\<lambda>d. day d * risk_score_at_time d) data)
           - sum_list (map day data) * sum_list (map risk_score_at_time data) = 0"
proof (cases data)
  case Nil
  then show ?thesis by simp
next
  case (Cons p ps)
  with assms have "\<forall>q \<in> set data. day q = day p"
    by (auto simp: same_day_def day_def list_all_iff)
  from same_day_sums [OF this] show ?thesis by simp
qed

lemma regression_same_day:
  assumes "same_day data"
  shows "calculateLinearRegression data = (NaN, NaN)"
  using numerator_zero [OF assms] denominator_zero_iff [of data] assms
  by (simp add: calculateLinearRegression_sums Let_def signed_inf_def js_sub_def)

lemma regression_finite:
  assumes "\<not> same_day data"
  shows "\<exists>s t. calculateLinearRegression data = (Fin s, Fin t)"
proof -
  from assms have "data \<noteq> []" by (auto simp: same_day_def)
  then have "real (length data) \<noteq> 0" by simp
  then show ?thesis
    using denominator_zero_iff [of data] assms
    by (simp add: calculateLinearRegression_sums Let_def js_sub_def)
qed

lemma linear_prediction_nan_iff:
  assumes "i < n"
  shows "predicted_risk (linearRegressionForecast data c n ! i) = NaN
           \<longleftrightarrow> 2 \<le> length data \<and> same_day data"
proof (cases "length data < 2")
  case True
  with assms show ?thesis by (simp add: linear_nth)
next
  case long: False
  show ?thesis
  proof (cases "same_day data")
    case True
    with assms long show ?thesis
      by (simp add: linear_nth regression_same_day)
  next
    case False
    from regression_finite [OF this] obtain s t
      where "calculateLinearRegression data = (Fin s, Fin t)" by blast
    with assms long False show ?thesis
      by (simp add: linear_nth)
  qed
qed


text \<open>
  The blended value lies between the values of the three models as soon as the linear
  model returns a number, for scores in \<open>[0, 100]\<close>.
\<close>

lemma clamp_js:
  "js_max (Fin 0) (js_min (Fin 100) x) = NaN \<or>
   (\<exists>y. 0 \<le> y \<and> y \<le> 100 \<and> js_max (Fin 0) (js_min (Fin 100) x) = Fin y)"
  by (cases x) auto

lemma ensemble_within_variants:
  assumes i: "i < n"
      and c: "0 \<le> c" "c \<le> 100"
      and data: "list_all (\<lambda>p. 0 \<le> risk_score_at_time p \<and> risk_score_at_time p \<le> 100) data"
      and lin: "predicted_risk (linearRegressionForecast data c n ! i) \<noteq> NaN"
  shows "within_variants (predicted_risk (linearRegressionForecast data c n ! i))
           (predicted_risk (exponentialSmoothingForecast data c n ! i))
           (predicted_risk (arimaForecast data c n ! i))
           (predicted_risk (ensembleForecast data c n ! i))"
proof -
  let ?s = "smoothedValue data c"
  have s: "0 \<le> ?s" "?s \<le> 100"
    using smoothed_range [OF c data] by simp_all
  define e where "e = toFixed 1 ?s"
  have e: "tenth e" "0 \<le> e" "e \<le> 100"
    using s toFixed_1_tenth [of ?s] toFixed_1_range [of ?s] by (simp_all add: e_def)
  have E: "predicted_risk (exponentialSmoothingForecast data c n ! i) = Fin e"
    using i by (simp add: exp_nth e_def)
  obtain a where A: "predicted_risk (arimaForecast data c n ! i) = Fin a"
    and a: "tenth a" "0 \<le> a" "a \<le> 100" and a_short: "length data < 3 \<longrightarrow> a = e"
  proof (cases "length data < 3")
    case True
    with i e that [of e] show ?thesis by (simp add: arima_nth e_def)
  next
    case False
    let ?y = "max 0 (min 100 (c + avgDifference data * (real i + 1)))"
    have "0 \<le> ?y" "?y \<le> 100" by simp_all
    then have "tenth (toFixed 1 ?y)" "0 \<le> toFixed 1 ?y" "toFixed 1 ?y \<le> 100"
      using toFixed_1_tenth [of ?y] toFixed_1_range [of ?y] by simp_all
    with i False that [of "toFixed 1 ?y"] show ?thesis by (simp add: arima_nth)
  qed
  show ?thesis
  proof (cases "length data < 2")
    case True
    then have L: "predicted_risk (linearRegressionForecast data c n ! i) = Fin c"
      using i by (simp add: linear_nth)
    from True a_short have ae: "a = e" by simp
    show ?thesis
      using blend_static [OF c e] i
      by (simp add: within_variants_def ensemble_nth L E A ae)
  next
    case False
    let ?x = "js_max (Fin 0) (js_min (Fin 100)
               (js_add (js_mul (fst (calculateLinearRegression data))
                          (Fin (real_of_int (Max (set (map days_from_start data)) + (int i + 1) * 30))))
                       (snd (calculateLinearRegression data))))"
    have Lx: "predicted_risk (linearRegressionForecast data c n ! i) = js_toFixed 1 ?x"
      using i False by (simp add: linear_nth)
    from clamp_js [of "js_add (js_mul (fst (calculateLinearRegression data))
                          (Fin (real_of_int (Max (set (map days_from_start data)) + (int i + 1) * 30))))
                       (snd (calculateLinearRegression data))"] lin Lx
    obtain y where y: "0 \<le> y" "y \<le> 100" "?x = Fin y" by auto
    define l where "l = toFixed 1 y"
    have l: "tenth l" "0 \<le> l" "l \<le> 100"
      using y toFixed_1_tenth [of y] toFixed_1_range [of y] by (simp_all add: l_def)
    have L: "predicted_risk (linearRegressionForecast data c n ! i) = Fin l"
      using Lx y by (simp add: l_def)
    show ?thesis
      using blend_tenths [OF l e a] i
      by (simp add: within_variants_def ensemble_nth L E A)
  qed
qed


lemma ensemble_within_variants_unless_same_day:
  assumes "i < n" "0 \<le> c" "c \<le> 100"
      and "list_all (\<lambda>p. 0 \<le> risk_score_at_time p \<and> risk_score_at_time p \<le> 100) data"
      and "\<not> (2 \<le> length data \<and> same_day data)"
  shows "within_variants (predicted_risk (linearRegressionForecast data c n ! i))
           (predicted_risk (exponentialSmoothingForecast data c n ! i))
           (predicted_risk (arimaForecast data c n ! i))
           (predicted_risk (ensembleForecast data c n ! i))"
  using assms by (intro ensemble_within_variants) (simp_all add: linear_prediction_nan_iff)

text \<open>With at least two rows that all share one day, every blended value is \<open>NaN\<close>.\<close>

lemma ensemble_nan_if_same_day:
  assumes "i < n" "2 \<le> length data" "same_day data"
  shows "predicted_risk (ensembleForecast data c n ! i) = NaN"
    and "\<not> within_variants (predicted_risk (linearRegressionForecast data c n ! i))
             (predicted_risk (exponentialSmoothingForecast data c n ! i))
             (predicted_risk (arimaForecast data c n ! i))
             (predicted_risk (ensembleForecast data c n ! i))"
proof -
  have lin: "predicted_risk (linearRegressionForecast data c n ! i) = NaN"
    using assms by (simp add: linear_prediction_nan_iff)
  with assms(1) show "predicted_risk (ensembleForecast data c n ! i) = NaN"
    by (simp add: ensemble_nth)
  from lin show "\<not> within_variants (predicted_risk (linearRegressionForecast data c n ! i))
             (predicted_risk (exponentialSmoothingForecast data c n ! i))
             (predicted_risk (arimaForecast data c n ! i))
             (predicted_risk (ensembleForecast data c n ! i))"
    by (simp add: within_variants_def)
qed

text \<open>
  C5 fails when the rows of the history share one day. With two scenarios of day 5 the
  regression divides zero by zero: every prediction of the linear model is \<open>NaN\<close>, and so
  is every blended value, while the other two models predict 50. A \<open>NaN\<close> lies between
  no two numbers.
\<close>

theorem ensemble_nan_on_same_day_history:
  "map predicted_risk (linearRegressionForecast [point 5 50, point 5 50] 50 3) = [NaN, NaN, NaN] \<and>
   map predicted_risk (exponentialSmoothingForecast [point 5 50, point 5 50] 50 3)
     = [Fin 50, Fin 50, Fin 50] \<and>
   map predicted_risk (arimaForecast [point 5 50, point 5 50] 50 3) = [Fin 50, Fin 50, Fin 50] \<and>
   map predicted_risk (ensembleForecast [point 5 50, point 5 50] 50 3) = [NaN, NaN, NaN] \<and>
   \<not> within_variants
       (predicted_risk (linearRegressionForecast [point 5 50, point 5 50] 50 3 ! 0))
       (predicted_risk (exponentialSmoothingForecast [point 5 50, point 5 50] 50 3 ! 0))
       (predicted_risk (arimaForecast [point 5 50, point 5 50] 50 3 ! 0))
       (predicted_risk (ensembleForecast [point 5 50, point 5 50] 50 3 ! 0))"
  by (simp add: forecast_defs within_variants_def)

subsection \<open>The trend\<close>

text \<open>
  C10, as stated, fails for a first value of zero. From a current value of zero and the
  history 0, 0.04, 0.08 the blended forecast of three periods starts at 0 and is not flat;
  the percent change is \<open>+Infinity\<close> and the trend is reported as increasing.
\<close>

theorem trend_from_zero_counterexample:
  "predicted_risk (ensembleForecast [point 0 0, point 30 0.04, point 60 0.08] 0 3 ! 0) = Fin 0 \<and>
   map predicted_risk (ensembleForecast [point 0 0, point 30 0.04, point 60 0.08] 0 3)
     = [Fin 0, Fin 0.1, Fin 0.1] \<and>
   calculateTrendDirection (ensembleForecast [point 0 0, point 30 0.04, point 60 0.08] 0 3)
     = ''increasing''"
  by (simp add: forecast_defs calculateTrendDirection_def)

text \<open>
  C10, amended. The trend computation returns a value on every list of predictions. With
  fewer than two predictions it is \<open>stable\<close>. With a first value of zero it is decided by
  the last value: \<open>stable\<close> if that is zero too (or not a number), \<open>increasing\<close> if it is
  positive, \<open>decreasing\<close> if it is negative.
\<close>

theorem trend_direction_edge_cases:
  "(length predictions < 2 \<longrightarrow> calculateTrendDirection predictions = ''stable'') \<and>
   (2 \<le> length predictions \<and> predicted_risk (predictions ! 0) = Fin 0 \<longrightarrow>
      calculateTrendDirection predictions
        = trend_from_zero (predicted_risk (predictions ! (length predictions - 1))))"
  by (cases "predicted_risk (predictions ! (length predictions - 1))")
     (auto simp: calculateTrendDirection_def trend_from_zero_def js_sub_def js_lt_def
        signed_inf_def Let_def)

text \<open>
  Witness for C10: a blended forecast of one period, and the blended forecast of three
  periods that starts at zero.
\<close>

theorem trend_direction_edge_cases_witness:
  "length (ensembleForecast [point 0 0, point 30 0.04, point 60 0.08] 0 1) < 2 \<and>
   calculateTrendDirection (ensembleForecast [point 0 0, point 30 0.04, point 60 0.08] 0 1)
     = ''stable'' \<and>
   2 \<le> length (ensembleForecast [point 0 0, point 30 0.04, point 60 0.08] 0 3) \<and>
   predicted_risk (ensembleForecast [point 0 0, point 30 0.04, point 60 0.08] 0 3 ! 0) = Fin 0 \<and>
   calculateTrendDirection (ensembleForecast [point 0 0, point 30 0.04, point 60 0.08] 0 3)
     = trend_from_zero
         (predicted_risk (ensembleForecast [point 0 0, point 30 0.04, point 60 0.08] 0 3 ! 2))"
proof -
  have first: "predicted_risk (ensembleForecast [point 0 0, point 30 0.04, point 60 0.08] 0 3 ! 0)
                 = Fin 0"
    by (simp add: forecast_defs)
  show ?thesis
    using trend_direction_edge_cases
            [of "ensembleForecast [point 0 0, point 30 0.04, point 60 0.08] 0 1"]
          trend_direction_edge_cases
            [of "ensembleForecast [point 0 0, point 30 0.04, point 60 0.08] 0 3"]
          first
    by simp
qed

end
